theory Spec2Isabelle
  imports Main
begin

section \<open>Database tables\<close>

text \<open>
  The edge functions keep all shared state in Postgres tables reached through supabase-js.
  A table is the list of its rows, a row a record of its columns. Identifiers are UUIDs;
  they are only ever compared for equality, so a UUID is a natural number and
  \<open>gen_random_uuid()\<close> is a counter kept beside the tables. Timestamps are
  milliseconds since the epoch. A request field that is absent or empty (the falsy case of
  \<open>!roomId\<close>) is \<open>None\<close>.
\<close>

type_synonym uuid = nat
type_synonym timestamp = int

text \<open>Table \<open>participants\<close> (columns used by the functions modelled here).\<close>

record participant_row =
  p_room_id :: uuid
  p_user_id :: uuid
  display_name :: string
  is_host :: bool
  is_online :: bool
  last_seen :: timestamp
  p_isTyping :: "bool option"

text \<open>
  Column \<open>metadata\<close> (JSONB) of \<open>webrtc_sessions\<close> and \<open>recording_sessions\<close>:
  each key is optional.
\<close>

record session_metadata =
  md_status :: "string option"
  md_hostName :: "string option"
  md_participantCount :: "nat option"
  md_requestedAt :: "timestamp option"
  md_permissionGrantedAt :: "timestamp option"
  md_cancelledAt :: "timestamp option"

text \<open>
  Table \<open>webrtc_sessions\<close>: id, room_id, session_type, host_user_id, started_at, ended_at,
  is_active, metadata. The table has no column \<open>status\<close>; the status of a screen share
  is the key \<open>status\<close> of \<open>metadata\<close>.
\<close>

record webrtc_session_row =
  ws_id :: uuid
  ws_room_id :: uuid
  session_type :: string
  host_user_id :: uuid
  ws_started_at :: timestamp
  ws_ended_at :: "timestamp option"
  is_active :: bool
  ws_metadata :: session_metadata

text \<open>Table \<open>recording_sessions\<close>; here \<open>status\<close> is a column.\<close>

record recording_session_row =
  rs_id :: uuid
  rs_room_id :: uuid
  started_by :: uuid
  rs_started_at :: timestamp
  rs_ended_at :: "timestamp option"
  rs_status :: string
  twitter_optimized :: bool
  download_count :: nat
  rs_metadata :: session_metadata

text \<open>
  Tables \<open>screen_share_permissions\<close> and \<open>recording_permissions\<close> have the same shape:
  id, session id, user_id, granted, granted_at, with a UNIQUE constraint on
  (session id, user_id).
\<close>

record permission_row =
  perm_id :: uuid
  perm_session_id :: uuid
  perm_user_id :: uuid
  granted :: bool
  granted_at :: timestamp

text \<open>Table \<open>webrtc_signals\<close>.\<close>

record webrtc_signal_row =
  sig_id :: uuid
  sig_room_id :: uuid
  from_peer :: uuid
  to_peer :: uuid
  signal_type :: string
  signal_data :: string
  created_at :: timestamp
  expires_at :: timestamp

record database =
  rooms :: "uuid list"
  participants :: "participant_row list"
  webrtc_sessions :: "webrtc_session_row list"
  screen_share_permissions :: "permission_row list"
  recording_sessions :: "recording_session_row list"
  recording_permissions :: "permission_row list"
  webrtc_signals :: "webrtc_signal_row list"
  next_uuid :: uuid

datatype 'b response = Response (http_status: nat) (body: 'b)

text \<open>
  supabase-js \<open>.single()\<close>: the row when the query matches exactly one, otherwise
  \<open>data = null\<close> with an error (no row, or more than one).
\<close>

fun single :: "'a list \<Rightarrow> 'a option" where
  "single [x] = Some x"
| "single xs = None"

section \<open>Signaling relay: function webrtc-signal\<close>

text \<open>The JSON body of a POST (interface \<open>WebRTCSignal\<close>).\<close>

record webrtc_signal =
  sg_roomId :: "uuid option"
  sg_fromUserId :: "uuid option"
  sg_toUserId :: "uuid option"
  sg_signalType :: "string option"
  sg_signalData :: "string option"

datatype signal_request =
  SignalOptions
| SignalPost webrtc_signal
| SignalGet "uuid option" "uuid option"
| SignalOther

datatype signal_body =
  SignalPreflight
| SignalSuccess
| Signals "webrtc_signal_row list"
| SignalError string

text \<open>
  The insert into \<open>webrtc_signals\<close>. Every column is NOT NULL and \<open>signal_type\<close> is
  VARCHAR(20): a longer value is an error unless the characters beyond the twentieth are
  all spaces, which are cut off. \<open>room_id\<close> carries no foreign key. A rejected insert
  is \<open>None\<close>.
\<close>

definition insert_webrtc_signal ::
  "timestamp \<Rightarrow> webrtc_signal \<Rightarrow> timestamp \<Rightarrow> database \<Rightarrow> database option" where
  "insert_webrtc_signal now signal expiresAt db =
     (case (sg_roomId signal, sg_fromUserId signal, sg_toUserId signal,
            sg_signalType signal, sg_signalData signal) of
        (Some r, Some f, Some t, Some ty, Some d) \<Rightarrow>
          if list_all (\<lambda>c. c = CHR '' '') (drop 20 ty)
          then Some (db\<lparr>webrtc_signals := webrtc_signals db @
                 [\<lparr>sig_id = next_uuid db, sig_room_id = r, from_peer = f, to_peer = t,
                   signal_type = take 20 ty, signal_data = d, created_at = now,
                   expires_at = expiresAt\<rparr>],
                 next_uuid := Suc (next_uuid db)\<rparr>)
          else None
      | _ \<Rightarrow> None)"

text \<open>
  POST branch. \<open>expiresAt.setMinutes(expiresAt.getMinutes() + 5)\<close> adds five minutes to
  the current time. A failed insert is thrown and reported by the catch block as 500.
\<close>

definition webrtc_signal_post ::
  "timestamp \<Rightarrow> database \<Rightarrow> webrtc_signal \<Rightarrow> signal_body response \<times> database" where
  "webrtc_signal_post now db signal =
     (let expiresAt = now + 5 * 60 * 1000
      in case insert_webrtc_signal now signal expiresAt db of
           None \<Rightarrow> (Response 500 (SignalError ''Internal server error''), db)
         | Some db' \<Rightarrow> (Response 200 SignalSuccess, db'))"

text \<open>
  GET branch: the rows of the room addressed to the user with \<open>expires_at > now\<close>, ordered
  by \<open>created_at\<close> ascending; when there are any, the rows with those ids are deleted.
\<close>

definition pending_signals :: "timestamp \<Rightarrow> uuid \<Rightarrow> uuid \<Rightarrow> database \<Rightarrow> webrtc_signal_row list" where
  "pending_signals now r u db =
     sort_key created_at
       (filter (\<lambda>s. sig_room_id s = r \<and> to_peer s = u \<and> now < expires_at s)
          (webrtc_signals db))"

definition webrtc_signal_get ::
  "timestamp \<Rightarrow> database \<Rightarrow> uuid option \<Rightarrow> uuid option \<Rightarrow> signal_body response \<times> database" where
  "webrtc_signal_get now db roomId userId =
     (case (roomId, userId) of
        (Some r, Some u) \<Rightarrow>
          (let signals = pending_signals now r u db;
               db' = (if signals \<noteq> []
                      then db\<lparr>webrtc_signals :=
                             filter (\<lambda>s. sig_id s \<notin> set (map sig_id signals))
                               (webrtc_signals db)\<rparr>
                      else db)
           in (Response 200 (Signals signals), db'))
      | _ \<Rightarrow> (Response 400 (SignalError ''Missing roomId or userId parameter''), db))"

definition webrtc_signal_serve ::
  "timestamp \<Rightarrow> database \<Rightarrow> signal_request \<Rightarrow> signal_body response \<times> database" where
  "webrtc_signal_serve now db req =
     (case req of
        SignalOptions \<Rightarrow> (Response 200 SignalPreflight, db)
      | SignalPost signal \<Rightarrow> webrtc_signal_post now db signal
      | SignalGet roomId userId \<Rightarrow> webrtc_signal_get now db roomId userId
      | SignalOther \<Rightarrow> (Response 405 (SignalError ''Method not allowed''), db))"

text \<open>The envelopes a response carries (none for an error response).\<close>

fun envelopes :: "signal_body response \<Rightarrow> webrtc_signal_row list" where
  "envelopes (Response c (Signals xs)) = xs"
| "envelopes (Response c b) = []"

section \<open>Consensus coordinator\<close>

datatype coordinator_body =
  CoordError string
| Requested uuid "(uuid \<times> string) list"
| Ballot string nat nat

text \<open>
  The upsert of a ballot with \<open>onConflict\<close> on (session id, user_id): a row of that
  session and user has \<open>granted\<close> overwritten, otherwise a new row is appended.
\<close>

definition upsert_permission ::
  "timestamp \<Rightarrow> uuid \<Rightarrow> uuid \<Rightarrow> uuid \<Rightarrow> bool \<Rightarrow> permission_row list \<Rightarrow> permission_row list" where
  "upsert_permission now new_id sid uid g perms =
     (if list_ex (\<lambda>p. perm_session_id p = sid \<and> perm_user_id p = uid) perms
      then map (\<lambda>p. if perm_session_id p = sid \<and> perm_user_id p = uid
                     then p\<lparr>granted := g\<rparr> else p) perms
      else perms @ [\<lparr>perm_id = new_id, perm_session_id = sid, perm_user_id = uid,
                      granted = g, granted_at = now\<rparr>])"

text \<open>
  Both request functions look for a session in progress with
  \<open>.select('id, status') ... .in('status', [...]).single()\<close>. A table without a column
  \<open>status\<close> rejects that query, and the function, which reads only \<open>data\<close>, sees
  \<open>null\<close>. The first argument is the table's \<open>status\<close> column, when it has one.
\<close>

definition single_in_status ::
  "('r \<Rightarrow> string) option \<Rightarrow> ('r \<Rightarrow> bool) \<Rightarrow> string list \<Rightarrow> 'r list \<Rightarrow> 'r option" where
  "single_in_status status_column eqs vals tbl =
     (case status_column of
        None \<Rightarrow> None
      | Some status \<Rightarrow> single (filter (\<lambda>r. eqs r \<and> status r \<in> set vals) tbl))"

definition webrtc_sessions_status :: "(webrtc_session_row \<Rightarrow> string) option" where
  "webrtc_sessions_status = None"

definition recording_sessions_status :: "(recording_session_row \<Rightarrow> string) option" where
  "recording_sessions_status = Some rs_status"

definition online_participants :: "database \<Rightarrow> uuid \<Rightarrow> participant_row list" where
  "online_participants db r = filter (\<lambda>p. p_room_id p = r \<and> is_online p) (participants db)"

subsection \<open>Function request-screen-share\<close>

definition request_screen_share ::
  "timestamp \<Rightarrow> database \<Rightarrow> uuid option \<Rightarrow> uuid option \<Rightarrow> coordinator_body response \<times> database" where
  "request_screen_share now db roomId userId =
     (case (roomId, userId) of
        (Some r, Some u) \<Rightarrow>
          (case single (filter (\<lambda>p. p_user_id p = u \<and> p_room_id p = r) (participants db)) of
             None \<Rightarrow> (Response 403 (CoordError ''User not in room''), db)
           | Some participant \<Rightarrow>
               (case single_in_status webrtc_sessions_status
                       (\<lambda>s. ws_room_id s = r \<and> session_type s = ''screen_share'')
                       [''active'', ''pending_permission''] (webrtc_sessions db) of
                  Some existingScreenShare \<Rightarrow>
                    (Response 409 (CoordError
                       ''Screen sharing already in progress or pending permission''), db)
                | None \<Rightarrow>
                    (let ps = online_participants db r;
                         screenShareSession =
                           \<lparr>ws_id = next_uuid db, ws_room_id = r,
                            session_type = ''screen_share'', host_user_id = u,
                            ws_started_at = now, ws_ended_at = None, is_active = False,
                            ws_metadata =
                              \<lparr>md_status = Some ''pending_permission'',
                               md_hostName = Some (display_name participant),
                               md_participantCount = Some (length ps),
                               md_requestedAt = Some now,
                               md_permissionGrantedAt = None, md_cancelledAt = None\<rparr>\<rparr>
                     in (Response 200
                           (Requested (ws_id screenShareSession)
                              (map (\<lambda>p. (p_user_id p, display_name p)) ps)),
                         db\<lparr>webrtc_sessions := webrtc_sessions db @ [screenShareSession],
                            next_uuid := Suc (next_uuid db)\<rparr>))))
      | _ \<Rightarrow> (Response 400 (CoordError ''Missing required fields''), db))"

subsection \<open>Function request-recording\<close>

definition request_recording ::
  "timestamp \<Rightarrow> database \<Rightarrow> uuid option \<Rightarrow> uuid option \<Rightarrow> coordinator_body response \<times> database" where
  "request_recording now db roomId userId =
     (case (roomId, userId) of
        (Some r, Some u) \<Rightarrow>
          (case single (filter (\<lambda>p. p_user_id p = u \<and> p_room_id p = r) (participants db)) of
             None \<Rightarrow> (Response 403 (CoordError ''User not in room''), db)
           | Some participant \<Rightarrow>
               if \<not> is_host participant
               then (Response 403 (CoordError ''Only room host can start recording''), db)
               else
               (case single_in_status recording_sessions_status
                       (\<lambda>s. rs_room_id s = r)
                       [''recording'', ''pending_permission''] (recording_sessions db) of
                  Some existingRecording \<Rightarrow>
                    (Response 409 (CoordError
                       ''Recording already in progress or pending permission''), db)
                | None \<Rightarrow>
                    (let ps = online_participants db r;
                         recordingSession =
                           \<lparr>rs_id = next_uuid db, rs_room_id = r, started_by = u,
                            rs_started_at = now, rs_ended_at = None,
                            rs_status = ''pending_permission'',
                            twitter_optimized = False, download_count = 0,
                            rs_metadata =
                              \<lparr>md_status = None,
                               md_hostName = Some (display_name participant),
                               md_participantCount = Some (length ps),
                               md_requestedAt = Some now,
                               md_permissionGrantedAt = None, md_cancelledAt = None\<rparr>\<rparr>
                     in (Response 200
                           (Requested (rs_id recordingSession)
                              (map (\<lambda>p. (p_user_id p, display_name p)) ps)),
                         db\<lparr>recording_sessions := recording_sessions db @ [recordingSession],
                            next_uuid := Suc (next_uuid db)\<rparr>))))
      | _ \<Rightarrow> (Response 400 (CoordError ''Missing required fields''), db))"

subsection \<open>Function screen-share-permission\<close>

text \<open>
  The body \<open>Ballot status responsesReceived totalParticipants\<close> is the 200 response. The
  session's metadata written back is the one read before the upsert, with \<open>status\<close>,
  \<open>permissionGrantedAt\<close> and \<open>cancelledAt\<close> replaced (a key set to \<open>undefined\<close> is
  dropped from the JSON).
\<close>

definition screen_share_permission ::
  "timestamp \<Rightarrow> database \<Rightarrow> uuid option \<Rightarrow> uuid option \<Rightarrow> bool option
     \<Rightarrow> coordinator_body response \<times> database" where
  "screen_share_permission now db sessionId userId grantedField =
     (case (sessionId, userId, grantedField) of
        (Some sid, Some u, Some g) \<Rightarrow>
          (case single (filter (\<lambda>s. ws_id s = sid) (webrtc_sessions db)) of
             None \<Rightarrow> (Response 404 (CoordError ''Screen share session not found''), db)
           | Some session \<Rightarrow>
               if md_status (ws_metadata session) \<noteq> Some ''pending_permission''
               then (Response 400
                       (CoordError ''Screen share session not requesting permission''), db)
               else
                 (let db1 = db\<lparr>screen_share_permissions :=
                                 upsert_permission now (next_uuid db) sid u g
                                   (screen_share_permissions db),
                               next_uuid := Suc (next_uuid db)\<rparr>;
                      onlineParticipants = online_participants db1 (ws_room_id session);
                      permissions = filter (\<lambda>p. perm_session_id p = sid)
                                      (screen_share_permissions db1);
                      totalParticipants = length onlineParticipants;
                      totalResponses = length permissions;
                      allGranted = list_all granted permissions
                  in if totalResponses = totalParticipants
                     then
                       (let newStatus = (if allGranted then ''active'' else ''cancelled'')
                        in (Response 200 (Ballot newStatus totalResponses totalParticipants),
                            db1\<lparr>webrtc_sessions :=
                                  map (\<lambda>s. if ws_id s = sid
                                       then s\<lparr>is_active := allGranted,
                                              ws_metadata := (ws_metadata session)
                                                \<lparr>md_status := Some newStatus,
                                                 md_permissionGrantedAt :=
                                                   (if allGranted then Some now else None),
                                                 md_cancelledAt :=
                                                   (if \<not> allGranted then Some now else None)\<rparr>\<rparr>
                                       else s)
                                    (webrtc_sessions db1)\<rparr>))
                     else (Response 200
                             (Ballot ''waiting_for_responses'' totalResponses totalParticipants),
                           db1)))
      | _ \<Rightarrow> (Response 400 (CoordError ''Missing required fields''), db))"

subsection \<open>Function recording-permission\<close>

text \<open>
  The update sets \<open>started_at\<close> only for \<open>recording\<close> and \<open>ended_at\<close> only for
  \<open>cancelled\<close>; the other column is \<open>undefined\<close> and left as it is.
\<close>

definition recording_permission ::
  "timestamp \<Rightarrow> database \<Rightarrow> uuid option \<Rightarrow> uuid option \<Rightarrow> bool option
     \<Rightarrow> coordinator_body response \<times> database" where
  "recording_permission now db recordingSessionId userId grantedField =
     (case (recordingSessionId, userId, grantedField) of
        (Some sid, Some u, Some g) \<Rightarrow>
          (case single (filter (\<lambda>s. rs_id s = sid) (recording_sessions db)) of
             None \<Rightarrow> (Response 404 (CoordError ''Recording session not found''), db)
           | Some session \<Rightarrow>
               if rs_status session \<noteq> ''pending_permission''
               then (Response 400
                       (CoordError ''Recording session not requesting permission''), db)
               else
                 (let db1 = db\<lparr>recording_permissions :=
                                 upsert_permission now (next_uuid db) sid u g
                                   (recording_permissions db),
                               next_uuid := Suc (next_uuid db)\<rparr>;
                      onlineParticipants = online_participants db1 (rs_room_id session);
                      permissions = filter (\<lambda>p. perm_session_id p = sid)
                                      (recording_permissions db1);
                      totalParticipants = length onlineParticipants;
                      totalResponses = length permissions;
                      allGranted = list_all granted permissions
                  in if totalResponses = totalParticipants
                     then
                       (let newStatus = (if allGranted then ''recording'' else ''cancelled'')
                        in (Response 200 (Ballot newStatus totalResponses totalParticipants),
                            db1\<lparr>recording_sessions :=
                                  map (\<lambda>s. if rs_id s = sid
                                       then s\<lparr>rs_status := newStatus,
                                              rs_started_at :=
                                                (if newStatus = ''recording'' then now
                                                 else rs_started_at s),
                                              rs_ended_at :=
                                                (if newStatus = ''cancelled'' then Some now
                                                 else rs_ended_at s)\<rparr>
                                       else s)
                                    (recording_sessions db1)\<rparr>))
                     else (Response 200
                             (Ballot ''waiting_for_responses'' totalResponses totalParticipants),
                           db1)))
      | _ \<Rightarrow> (Response 400 (CoordError ''Missing required fields''), db))"

subsection \<open>Function update-presence\<close>

datatype presence_body = PresenceError string | PresenceUpdated participant_row

definition update_presence ::
  "timestamp \<Rightarrow> database \<Rightarrow> uuid option \<Rightarrow> bool option \<Rightarrow> bool option
     \<Rightarrow> presence_body response \<times> database" where
  "update_presence now db userId isOnline isTyping =
     (case userId of
        None \<Rightarrow> (Response 400 (PresenceError ''User ID is required''), db)
      | Some u \<Rightarrow>
          (case single (filter (\<lambda>p. p_user_id p = u) (participants db)) of
             None \<Rightarrow> (Response 404 (PresenceError ''Participant not found''), db)
           | Some currentParticipant \<Rightarrow>
               (let upd = (\<lambda>p. p\<lparr>last_seen := now,
                                 is_online := (case isOnline of None \<Rightarrow> is_online p
                                               | Some b \<Rightarrow> b),
                                 p_isTyping := (case isTyping of None \<Rightarrow> p_isTyping p
                                                | Some b \<Rightarrow> Some b)\<rparr>);
                    db' = db\<lparr>participants :=
                               map (\<lambda>p. if p_user_id p = u then upd p else p)
                                 (participants db)\<rparr>
                in (Response 200 (PresenceUpdated (upd currentParticipant)), db'))))"

text \<open>What the tables say about a session, and the ballots recorded for it.\<close>

definition screen_share_status :: "database \<Rightarrow> uuid \<Rightarrow> string option" where
  "screen_share_status db sid =
     (case single (filter (\<lambda>s. ws_id s = sid) (webrtc_sessions db)) of
        None \<Rightarrow> None
      | Some s \<Rightarrow> md_status (ws_metadata s))"

definition recording_status :: "database \<Rightarrow> uuid \<Rightarrow> string option" where
  "recording_status db sid =
     (case single (filter (\<lambda>s. rs_id s = sid) (recording_sessions db)) of
        None \<Rightarrow> None
      | Some s \<Rightarrow> Some (rs_status s))"

definition ballots :: "permission_row list \<Rightarrow> uuid \<Rightarrow> permission_row list" where
  "ballots perms sid = filter (\<lambda>p. perm_session_id p = sid) perms"

text \<open>The ballots of a session once the vote of user \<open>u\<close> has been upserted.\<close>

definition ss_vote :: "timestamp \<Rightarrow> database \<Rightarrow> uuid \<Rightarrow> uuid \<Rightarrow> bool \<Rightarrow> permission_row list" where
  "ss_vote now db sid u g =
     ballots (upsert_permission now (next_uuid db) sid u g (screen_share_permissions db)) sid"

definition rec_vote :: "timestamp \<Rightarrow> database \<Rightarrow> uuid \<Rightarrow> uuid \<Rightarrow> bool \<Rightarrow> permission_row list" where
  "rec_vote now db sid u g =
     ballots (upsert_permission now (next_uuid db) sid u g (recording_permissions db)) sid"

section \<open>Screen-share panel: reconnection after a lost video track\<close>

text \<open>
  The panel component keeps React state (\<open>isScreenSharing\<close>, \<open>isStartingScreenShare\<close>,
  \<open>connectionStatus\<close>, \<open>currentScreenShareSessionId\<close>) and refs (\<open>localStreamRef\<close>,
  \<open>streamEndedHandlerRef\<close>, \<open>reconnectTimeoutRef\<close>, \<open>reconnectAttemptsRef\<close>,
  \<open>isUserStoppedRef\<close>). The browser's pending timeouts are part of the state:
  \<open>setTimeout\<close> adds one and returns its handle, \<open>clearTimeout\<close> removes the one with
  that handle. Every timeout of the panel calls \<open>handleReconnectScreenShare\<close>.

  The functions of the component are closures of one render: a state variable they read
  is the constant of that render, a ref is read when they run. \<open>handleEnded\<close> reads
  \<open>isScreenSharing\<close>; it is created by \<open>setupStreamEndedHandler\<close>, so the value it
  sees is the one of the render whose function called \<open>setupStreamEndedHandler\<close>. That
  value is the first argument of \<open>setupStreamEndedHandler\<close>, \<open>handleEnded\<close> and
  \<open>handleReconnectScreenShare\<close>; the listener and each timeout carry it.
  \<open>handleStartScreenShare\<close>, the only function that starts the chain, passes the
  \<open>isScreenSharing\<close> of the render it belongs to.

  State that only the rendering reads (error text, microphone flag), the sound and the
  requests to the backend are left out: they do not change the fields below. A handler
  runs to its end before the next event is taken.
\<close>

datatype connection_status = Idle | Connecting | Connected | Reconnecting | Failed

text \<open>What \<open>getDisplayMedia\<close> gives: a stream, or an error by name.\<close>

datatype display_media = Stream nat | NotAllowedError | OtherError

record timeout =
  handle :: nat
  delay :: nat
  timeout_isScreenSharing :: bool

record panel =
  isScreenSharing :: bool
  isStartingScreenShare :: bool
  currentScreenShareSessionId :: "uuid option"
  connectionStatus :: connection_status
  localStreamRef :: "nat option"
  streamEndedHandlerRef :: "bool option"
  reconnectTimeoutRef :: "nat option"
  reconnectAttemptsRef :: nat
  isUserStoppedRef :: bool
  timeouts :: "timeout list"
  next_handle :: nat

text \<open>The component as it is mounted: the initial values of \<open>useState\<close> and \<open>useRef\<close>.\<close>

definition idle_panel :: panel where
  "idle_panel =
     \<lparr>isScreenSharing = False, isStartingScreenShare = False,
      currentScreenShareSessionId = None, connectionStatus = Idle,
      localStreamRef = None, streamEndedHandlerRef = None,
      reconnectTimeoutRef = None, reconnectAttemptsRef = 0, isUserStoppedRef = False,
      timeouts = [], next_handle = 1\<rparr>"

definition maxReconnectAttempts :: nat where
  "maxReconnectAttempts = 3"

definition setConnectionStatus :: "connection_status \<Rightarrow> panel \<Rightarrow> panel" where
  "setConnectionStatus st p = p\<lparr>connectionStatus := st\<rparr>"

definition setTimeout :: "nat \<Rightarrow> bool \<Rightarrow> panel \<Rightarrow> nat \<times> panel" where
  "setTimeout ms sharing p =
     (next_handle p,
      p\<lparr>timeouts := timeouts p @
           [\<lparr>handle = next_handle p, delay = ms, timeout_isScreenSharing = sharing\<rparr>],
        next_handle := Suc (next_handle p)\<rparr>)"

definition clearTimeout :: "nat \<Rightarrow> panel \<Rightarrow> panel" where
  "clearTimeout h p = p\<lparr>timeouts := filter (\<lambda>t. handle t \<noteq> h) (timeouts p)\<rparr>"

text \<open>
  \<open>setupStreamEndedHandler\<close> puts \<open>handleEnded\<close> on the video track of the stream and
  keeps the function that removes it; \<open>streamEndedHandlerRef\<close> holds the
  \<open>isScreenSharing\<close> of the listener in place.
\<close>

definition setupStreamEndedHandler :: "bool \<Rightarrow> panel \<Rightarrow> panel" where
  "setupStreamEndedHandler sharing p = p\<lparr>streamEndedHandlerRef := Some sharing\<rparr>"

text \<open>
  \<open>handleStopScreenShare\<close>: the stop button, also called by the handlers below. The
  \<open>finally\<close> block resets the state and both the attempt counter and the stop flag.
\<close>

definition handleStopScreenShare :: "panel \<Rightarrow> panel" where
  "handleStopScreenShare p =
     (let p1 = p\<lparr>isUserStoppedRef := True\<rparr>;
          p2 = (case reconnectTimeoutRef p1 of
                  None \<Rightarrow> p1
                | Some h \<Rightarrow> (clearTimeout h p1)\<lparr>reconnectTimeoutRef := None\<rparr>);
          p3 = p2\<lparr>streamEndedHandlerRef := None\<rparr>;
          p4 = p3\<lparr>localStreamRef := None\<rparr>;
          p5 = p4\<lparr>currentScreenShareSessionId := None, isScreenSharing := False,
                   isStartingScreenShare := False, reconnectAttemptsRef := 0\<rparr>
      in (setConnectionStatus Idle p5)\<lparr>isUserStoppedRef := False\<rparr>)"

text \<open>The listener of the video track's \<open>ended\<close> event.\<close>

definition handleEnded :: "bool \<Rightarrow> panel \<Rightarrow> panel" where
  "handleEnded sharing p =
     (if \<not> isUserStoppedRef p \<and> sharing \<and> reconnectAttemptsRef p < maxReconnectAttempts
      then
        (let p1 = p\<lparr>reconnectAttemptsRef := reconnectAttemptsRef p + 1\<rparr>;
             p2 = setConnectionStatus Reconnecting p1;
             (h, p3) = setTimeout (2000 * reconnectAttemptsRef p2) sharing p2
         in p3\<lparr>reconnectTimeoutRef := Some h\<rparr>)
      else if isUserStoppedRef p then p
      else handleStopScreenShare (setConnectionStatus Failed p))"

text \<open>
  \<open>handleReconnectScreenShare\<close>, run by a timeout, with the outcome of
  \<open>getDisplayMedia\<close>. The timeout of the catch block is not kept in any ref.
\<close>

definition handleReconnectScreenShare :: "bool \<Rightarrow> display_media \<Rightarrow> panel \<Rightarrow> panel" where
  "handleReconnectScreenShare sharing media p =
     (let p1 = setConnectionStatus Connecting p
      in case media of
           Stream s \<Rightarrow>
             (let p2 = p1\<lparr>localStreamRef := Some s\<rparr>;
                  p3 = setupStreamEndedHandler sharing p2;
                  p4 = p3\<lparr>reconnectAttemptsRef := 0\<rparr>
              in setConnectionStatus Connected p4)
         | NotAllowedError \<Rightarrow> handleStopScreenShare (setConnectionStatus Failed p1)
         | OtherError \<Rightarrow>
             (let p2 = setConnectionStatus Failed p1
              in if reconnectAttemptsRef p2 < maxReconnectAttempts
                 then snd (setTimeout 5000 sharing p2)
                 else handleStopScreenShare p2))"

text \<open>
  \<open>handleStartScreenShare\<close>, with the outcome of \<open>getDisplayMedia\<close> and of the
  registration with the backend (the session id, or \<open>None\<close> when the request fails and
  the share goes on with the local stream). \<open>setupStreamEndedHandler\<close> is called with
  the \<open>isScreenSharing\<close> of this render; \<open>setIsScreenSharing(true)\<close> comes later and
  changes the state for the next render only.
\<close>

definition handleStartScreenShare :: "display_media \<Rightarrow> uuid option \<Rightarrow> panel \<Rightarrow> panel" where
  "handleStartScreenShare media registered p =
     (if isStartingScreenShare p then p
      else
        (let sharing = isScreenSharing p;
             p1 = setConnectionStatus Connecting (p\<lparr>isStartingScreenShare := True\<rparr>);
             p2 = p1\<lparr>reconnectAttemptsRef := 0, isUserStoppedRef := False\<rparr>
         in case media of
              Stream s \<Rightarrow>
                (let p3 = p2\<lparr>localStreamRef := Some s\<rparr>;
                     p4 = setupStreamEndedHandler sharing p3;
                     p5 = (case registered of
                             None \<Rightarrow> p4
                           | Some sessionId \<Rightarrow>
                               p4\<lparr>currentScreenShareSessionId := Some sessionId\<rparr>);
                     p6 = setConnectionStatus Connected (p5\<lparr>isScreenSharing := True\<rparr>)
                 in p6\<lparr>isStartingScreenShare := False\<rparr>)
            | NotAllowedError \<Rightarrow>
                (setConnectionStatus Failed p2)\<lparr>isStartingScreenShare := False\<rparr>
            | OtherError \<Rightarrow>
                (setConnectionStatus Failed p2)\<lparr>isStartingScreenShare := False\<rparr>))"

text \<open>
  The cleanup of the effect that sets the panel up, for a panel that is open (the effect
  returns early otherwise). The effect lists \<open>currentScreenShareSessionId\<close> among its
  dependencies, so React runs the cleanup whenever an event has changed that state (and
  then runs the effect again). The cleanup resets the id itself; running it a second
  time changes nothing more.
\<close>

definition effectCleanup :: "panel \<Rightarrow> panel" where
  "effectCleanup p =
     (let p1 = p\<lparr>localStreamRef := None\<rparr>;
          p2 = (case reconnectTimeoutRef p1 of
                  None \<Rightarrow> p1
                | Some h \<Rightarrow> clearTimeout h p1);
          p3 = p2\<lparr>currentScreenShareSessionId := None, isScreenSharing := False\<rparr>
      in setConnectionStatus Idle p3)"

definition rerender :: "uuid option \<Rightarrow> panel \<Rightarrow> panel" where
  "rerender before p =
     (if currentScreenShareSessionId p = before then p else effectCleanup p)"

text \<open>
  What can happen to a panel. The share button calls \<open>handleStopScreenShare\<close> when
  \<open>isScreenSharing\<close> holds and \<open>handleStartScreenShare\<close> otherwise, and is disabled
  while a start is under way. The video track of the local stream ends by itself (the
  browser's own stop control, a closed window); a track stopped by the panel fires no
  event. A pending timeout fires. The realtime channel reports the user's own session as
  started or a session as stopped. Another dependency of the effect changes (another
  user's share, the room, the panel is closed).
\<close>

datatype panel_event =
  ShareButtonClicked display_media "uuid option"
| TrackEnded
| TimeoutFires nat display_media
| OwnShareStarted uuid
| ShareStopped uuid
| DepsChanged

fun handle_event :: "panel \<Rightarrow> panel_event \<Rightarrow> panel" where
  "handle_event p (ShareButtonClicked media registered) =
     (if isStartingScreenShare p then p
      else if isScreenSharing p then handleStopScreenShare p
      else handleStartScreenShare media registered p)"
| "handle_event p TrackEnded =
     (case (streamEndedHandlerRef p, localStreamRef p) of
        (Some sharing, Some s) \<Rightarrow> handleEnded sharing p
      | _ \<Rightarrow> p)"
| "handle_event p (TimeoutFires h media) =
     (case find (\<lambda>t. handle t = h) (timeouts p) of
        None \<Rightarrow> p
      | Some t \<Rightarrow> handleReconnectScreenShare (timeout_isScreenSharing t) media
                    (clearTimeout h p))"
| "handle_event p (OwnShareStarted sessionId) =
     setConnectionStatus Connected
       (p\<lparr>isScreenSharing := True, currentScreenShareSessionId := Some sessionId\<rparr>)"
| "handle_event p (ShareStopped sessionId) =
     (if Some sessionId = currentScreenShareSessionId p
      then setConnectionStatus Idle
             (p\<lparr>currentScreenShareSessionId := None, isScreenSharing := False\<rparr>)
      else p)"
| "handle_event p DepsChanged = effectCleanup p"

definition panel_step :: "panel \<Rightarrow> panel_event \<Rightarrow> panel" where
  "panel_step p ev = rerender (currentScreenShareSessionId p) (handle_event p ev)"

definition panel_run :: "panel \<Rightarrow> panel_event list \<Rightarrow> panel" where
  "panel_run p evs = foldl panel_step p evs"

text \<open>
  What every run from the mounted component keeps: no timeout is pending, no listener
  was created in a render with \<open>isScreenSharing\<close>, no start is under way, the attempt
  counter is 0 and the status is never \<open>Reconnecting\<close>.
\<close>

definition no_reconnection :: "panel \<Rightarrow> bool" where
  "no_reconnection p =
     (timeouts p = [] \<and> streamEndedHandlerRef p \<noteq> Some True \<and> \<not> isStartingScreenShare p
      \<and> \<not> isUserStoppedRef p
      \<and> reconnectAttemptsRef p = 0 \<and> connectionStatus p \<noteq> Reconnecting)"

section \<open>Example states\<close>

definition empty_db :: database where
  "empty_db = \<lparr>rooms = [], participants = [], webrtc_sessions = [],
     screen_share_permissions = [], recording_sessions = [], recording_permissions = [],
     webrtc_signals = [], next_uuid = 100\<rparr>"

text \<open>An envelope a peer addresses to itself, in a room that no table knows.\<close>

definition loop_signal :: webrtc_signal where
  "loop_signal = \<lparr>sg_roomId = Some 99, sg_fromUserId = Some 7, sg_toUserId = Some 7,
     sg_signalType = Some ''offer'', sg_signalData = Some ''sdp''\<rparr>"

definition sig_row :: "uuid \<Rightarrow> uuid \<Rightarrow> timestamp \<Rightarrow> timestamp \<Rightarrow> webrtc_signal_row" where
  "sig_row i t c e = \<lparr>sig_id = i, sig_room_id = 5, from_peer = 10, to_peer = t,
     signal_type = ''offer'', signal_data = ''sdp'', created_at = c, expires_at = e\<rparr>"

text \<open>Four stored envelopes of room 5: three for peer 11 (one of them expiring first), one for peer 12.\<close>

definition relay_db :: database where
  "relay_db = empty_db\<lparr>webrtc_signals :=
      [sig_row 21 11 500 300500, sig_row 22 12 600 300600, sig_row 23 11 400 300400,
       sig_row 24 11 100 300100]\<rparr>"

text \<open>Room 5 with its host Alice (10) and the guests Bob (11) and Carol (12), all online.\<close>

definition alice :: participant_row where
  "alice = \<lparr>p_room_id = 5, p_user_id = 10, display_name = ''Alice'', is_host = True,
     is_online = True, last_seen = 0, p_isTyping = None\<rparr>"

definition bob :: participant_row where
  "bob = \<lparr>p_room_id = 5, p_user_id = 11, display_name = ''Bob'', is_host = False,
     is_online = True, last_seen = 0, p_isTyping = None\<rparr>"

definition carol :: participant_row where
  "carol = \<lparr>p_room_id = 5, p_user_id = 12, display_name = ''Carol'', is_host = False,
     is_online = True, last_seen = 0, p_isTyping = None\<rparr>"

definition room_db :: database where
  "room_db = empty_db\<lparr>rooms := [5], participants := [alice, bob, carol]\<rparr>"

definition pair_db :: database where
  "pair_db = empty_db\<lparr>rooms := [5], participants := [alice, bob]\<rparr>"

text \<open>
  The screen share and the recording that Alice requests at time 1000 when \<open>n\<close>
  participants are online; each gets the id 100.
\<close>

definition pending_share :: "nat \<Rightarrow> webrtc_session_row" where
  "pending_share n =
     \<lparr>ws_id = 100, ws_room_id = 5, session_type = ''screen_share'', host_user_id = 10,
      ws_started_at = 1000, ws_ended_at = None, is_active = False,
      ws_metadata = \<lparr>md_status = Some ''pending_permission'', md_hostName = Some ''Alice'',
        md_participantCount = Some n, md_requestedAt = Some 1000,
        md_permissionGrantedAt = None, md_cancelledAt = None\<rparr>\<rparr>"

definition pending_recording :: "nat \<Rightarrow> recording_session_row" where
  "pending_recording n =
     \<lparr>rs_id = 100, rs_room_id = 5, started_by = 10, rs_started_at = 1000, rs_ended_at = None,
      rs_status = ''pending_permission'', twitter_optimized = False, download_count = 0,
      rs_metadata = \<lparr>md_status = None, md_hostName = Some ''Alice'',
        md_participantCount = Some n, md_requestedAt = Some 1000,
        md_permissionGrantedAt = None, md_cancelledAt = None\<rparr>\<rparr>"

definition room_share_db :: database where
  "room_share_db = room_db\<lparr>webrtc_sessions := [pending_share 3], next_uuid := 101\<rparr>"

definition room_recording_db :: database where
  "room_recording_db = room_db\<lparr>recording_sessions := [pending_recording 3], next_uuid := 101\<rparr>"

definition pair_share_db :: database where
  "pair_share_db = pair_db\<lparr>webrtc_sessions := [pending_share 2], next_uuid := 101\<rparr>"

text \<open>The same request after Alice and Bob have both granted it.\<close>

definition two_grants :: "permission_row list" where
  "two_grants =
     [\<lparr>perm_id = 101, perm_session_id = 100, perm_user_id = 10, granted = True,
       granted_at = 1100\<rparr>,
      \<lparr>perm_id = 102, perm_session_id = 100, perm_user_id = 11, granted = True,
       granted_at = 1200\<rparr>]"

definition room_share_voted_db :: database where
  "room_share_voted_db =
     room_share_db\<lparr>screen_share_permissions := two_grants, next_uuid := 103\<rparr>"

text \<open>The pair's request once Bob has gone offline.\<close>

definition pair_left_db :: database where
  "pair_left_db =
     pair_share_db\<lparr>participants := [alice, bob\<lparr>last_seen := 1500, is_online := False\<rparr>]\<rparr>"

section \<open>Properties of the signaling relay\<close>

lemma pending_signals_set:
  "set (pending_signals now r u db) =
     {s \<in> set (webrtc_signals db). sig_room_id s = r \<and> to_peer s = u \<and> now < expires_at s}"
  by (auto simp: pending_signals_def)

lemma post_stored:
  assumes "webrtc_signal_post now db signal = (Response 200 SignalSuccess, db1)"
  shows "\<exists>row. webrtc_signals db1 = webrtc_signals db @ [row] \<and> expires_at row = now + 300000"
  using assms
  by (auto simp: webrtc_signal_post_def insert_webrtc_signal_def Let_def
      split: option.splits if_splits)

lemma get_envelopes:
  "envelopes (fst (webrtc_signal_get q db roomId userId)) =
     (case (roomId, userId) of (Some r, Some u) \<Rightarrow> pending_signals q r u db | _ \<Rightarrow> [])"
  by (auto simp: webrtc_signal_get_def Let_def split: option.splits)

lemma serve_envelopes_live:
  "s \<in> set (envelopes (fst (webrtc_signal_serve q db req))) \<Longrightarrow> q < expires_at s"
  by (cases req)
     (auto simp: webrtc_signal_serve_def webrtc_signal_post_def get_envelopes
        pending_signals_set Let_def split: option.splits)

lemma loop_post:
  "webrtc_signal_serve 1000 empty_db (SignalPost loop_signal) =
     (Response 200 SignalSuccess,
      empty_db\<lparr>webrtc_signals :=
         [\<lparr>sig_id = 100, sig_room_id = 99, from_peer = 7, to_peer = 7,
           signal_type = ''offer'', signal_data = ''sdp'', created_at = 1000,
           expires_at = 301000\<rparr>], next_uuid := 101\<rparr>)"
  by (simp add: webrtc_signal_serve_def webrtc_signal_post_def insert_webrtc_signal_def
        empty_db_def loop_signal_def)

text \<open>
  Claim C4 says that an envelope with \<open>from_peer = to_peer\<close>, and one addressed to an
  unknown room, is refused with a validation error and nothing is stored. The POST branch
  checks neither: the envelope below has both defects, no room exists at all, and the
  answer is 200 with the row stored.
\<close>

theorem send_unvalidated_counterexample:
  "sg_fromUserId loop_signal = sg_toUserId loop_signal
   \<and> 99 \<notin> set (rooms empty_db)
   \<and> webrtc_signals empty_db = []
   \<and> http_status (fst (webrtc_signal_serve 1000 empty_db (SignalPost loop_signal))) = 200
   \<and> length (webrtc_signals (snd (webrtc_signal_serve 1000 empty_db (SignalPost loop_signal)))) = 1"
  by (simp add: loop_post) (simp add: empty_db_def loop_signal_def)

text \<open>
  Claim C4, amended: the POST branch validates neither the peers nor the room. Every
  envelope whose five fields are present, with a type of at most 20 characters, is stored
  with an expiry five minutes after the call and answered 200, whatever its sender,
  receiver and room are (equal peers and unknown rooms included).
\<close>

theorem send_accepts_any_addressing:
  assumes "sg_roomId signal = Some r" "sg_fromUserId signal = Some f"
    "sg_toUserId signal = Some t" "sg_signalType signal = Some ty"
    "sg_signalData signal = Some d" "length ty \<le> 20"
  shows "webrtc_signal_serve now db (SignalPost signal) =
     (Response 200 SignalSuccess,
      db\<lparr>webrtc_signals := webrtc_signals db @
           [\<lparr>sig_id = next_uuid db, sig_room_id = r, from_peer = f, to_peer = t,
             signal_type = ty, signal_data = d, created_at = now,
             expires_at = now + 5 * 60 * 1000\<rparr>],
         next_uuid := Suc (next_uuid db)\<rparr>)"
  using assms
  by (simp add: webrtc_signal_serve_def webrtc_signal_post_def insert_webrtc_signal_def)

theorem send_accepts_any_addressing_witness:
  "webrtc_signal_serve 1000 empty_db (SignalPost loop_signal) =
     (Response 200 SignalSuccess,
      empty_db\<lparr>webrtc_signals := webrtc_signals empty_db @
           [\<lparr>sig_id = next_uuid empty_db, sig_room_id = 99, from_peer = 7, to_peer = 7,
             signal_type = ''offer'', signal_data = ''sdp'', created_at = 1000,
             expires_at = 1000 + 5 * 60 * 1000\<rparr>],
         next_uuid := Suc (next_uuid empty_db)\<rparr>)"
  by (rule send_accepts_any_addressing) (simp_all add: loop_signal_def)

text \<open>
  Claim C6: an envelope that is stored gets an expiry time exactly five minutes
  (300000 ms) after the send, and from that time on no response of the function, on any
  later state of the tables, carries it.
\<close>

theorem envelope_ttl:
  assumes "webrtc_signal_serve now db (SignalPost signal) = (Response 200 SignalSuccess, db1)"
  shows "\<exists>row. webrtc_signals db1 = webrtc_signals db @ [row]
           \<and> expires_at row = now + 5 * 60 * 1000
           \<and> (\<forall>q db2 req. expires_at row \<le> q \<longrightarrow>
                 row \<notin> set (envelopes (fst (webrtc_signal_serve q db2 req))))"
proof -
  from assms have "webrtc_signal_post now db signal = (Response 200 SignalSuccess, db1)"
    by (simp add: webrtc_signal_serve_def)
  from post_stored [OF this] obtain row where
    row: "webrtc_signals db1 = webrtc_signals db @ [row]" "expires_at row = now + 300000"
    by blast
  have "row \<notin> set (envelopes (fst (webrtc_signal_serve q db2 req)))"
    if "expires_at row \<le> q" for q db2 req
    using serve_envelopes_live [of row q db2 req] that by auto
  with row show ?thesis by auto
qed

theorem envelope_ttl_witness:
  "\<exists>row. webrtc_signals (snd (webrtc_signal_serve 1000 empty_db (SignalPost loop_signal)))
             = webrtc_signals empty_db @ [row]
       \<and> expires_at row = 301000
       \<and> row \<notin> set (envelopes (fst (webrtc_signal_serve 301000
                  (snd (webrtc_signal_serve 1000 empty_db (SignalPost loop_signal)))
                  (SignalGet (Some 99) (Some 7)))))"
proof -
  let ?db1 = "snd (webrtc_signal_serve 1000 empty_db (SignalPost loop_signal))"
  have "webrtc_signal_serve 1000 empty_db (SignalPost loop_signal) =
          (Response 200 SignalSuccess, ?db1)"
    by (simp add: loop_post)
  from envelope_ttl [OF this] obtain row where
    r: "webrtc_signals ?db1 = webrtc_signals empty_db @ [row]"
       "expires_at row = 1000 + 5 * 60 * 1000"
       "\<forall>q db2 req. expires_at row \<le> q \<longrightarrow>
                 row \<notin> set (envelopes (fst (webrtc_signal_serve q db2 req)))"
    by blast
  from r(2) have e: "expires_at row = 301000" by simp
  with r(3) have "row \<notin> set (envelopes (fst (webrtc_signal_serve 301000 ?db1
                  (SignalGet (Some 99) (Some 7)))))"
    by simp
  with r(1) e show ?thesis by blast
qed

lemma get_result:
  "webrtc_signal_serve now db (SignalGet (Some r) (Some u)) =
     (Response 200 (Signals (pending_signals now r u db)),
      if pending_signals now r u db \<noteq> []
      then db\<lparr>webrtc_signals :=
             filter (\<lambda>s. sig_id s \<notin> set (map sig_id (pending_signals now r u db)))
               (webrtc_signals db)\<rparr>
      else db)"
  by (simp add: webrtc_signal_serve_def webrtc_signal_get_def Let_def)

lemma pending_after_get:
  assumes "now1 \<le> now2"
  shows "pending_signals now2 r u
           (snd (webrtc_signal_serve now1 db (SignalGet (Some r) (Some u)))) = []"
proof -
  let ?db1 = "snd (webrtc_signal_serve now1 db (SignalGet (Some r) (Some u)))"
  have "s \<notin> set (pending_signals now2 r u ?db1)" for s
  proof
    assume a: "s \<in> set (pending_signals now2 r u ?db1)"
    then have s1: "s \<in> set (webrtc_signals ?db1)" "sig_room_id s = r" "to_peer s = u"
      "now2 < expires_at s"
      by (auto simp: pending_signals_set)
    from s1(1) have "s \<in> set (webrtc_signals db)"
      by (auto simp: get_result split: if_splits)
    with s1 assms have p: "s \<in> set (pending_signals now1 r u db)"
      by (auto simp: pending_signals_set)
    then have "pending_signals now1 r u db \<noteq> []" by auto
    with s1(1) have "sig_id s \<notin> sig_id ` set (pending_signals now1 r u db)"
      by (auto simp: get_result)
    with p show False by blast
  qed
  then show ?thesis by (cases "pending_signals now2 r u ?db1") auto
qed

lemma relay_first:
  "webrtc_signal_serve 300200 relay_db (SignalGet (Some 5) (Some 11)) =
     (Response 200 (Signals [sig_row 23 11 400 300400, sig_row 21 11 500 300500]),
      relay_db\<lparr>webrtc_signals := [sig_row 22 12 600 300600, sig_row 24 11 100 300100]\<rparr>)"
  by (simp add: get_result pending_signals_def relay_db_def empty_db_def sig_row_def)

lemma relay_second:
  "webrtc_signal_serve 300300
      (relay_db\<lparr>webrtc_signals := [sig_row 22 12 600 300600, sig_row 24 11 100 300100]\<rparr>)
      (SignalGet (Some 5) (Some 11)) =
     (Response 200 (Signals []),
      relay_db\<lparr>webrtc_signals := [sig_row 22 12 600 300600, sig_row 24 11 100 300100]\<rparr>)"
  by (simp add: get_result pending_signals_def relay_db_def empty_db_def sig_row_def)

text \<open>
  Claim C5: of two consecutive receive calls for the same room and peer, with no send
  in between, the first returns all the envelopes of that room addressed to that peer
  that have not expired, ordered by creation time, and deletes them; the second returns
  the empty list. The second call is not earlier than the first.
\<close>

theorem receive_at_most_once:
  assumes "webrtc_signal_serve now1 db (SignalGet (Some r) (Some u)) = (resp1, db1)"
    and "webrtc_signal_serve now2 db1 (SignalGet (Some r) (Some u)) = (resp2, db2)"
    and "now1 \<le> now2"
  shows "resp1 = Response 200 (Signals (sort_key created_at
            (filter (\<lambda>s. sig_room_id s = r \<and> to_peer s = u \<and> now1 < expires_at s)
               (webrtc_signals db))))
     \<and> (\<forall>s \<in> set (envelopes resp1). s \<notin> set (webrtc_signals db1))
     \<and> set (webrtc_signals db1) \<subseteq> set (webrtc_signals db)
     \<and> resp2 = Response 200 (Signals [])"
proof -
  from assms(1) have r1: "resp1 = Response 200 (Signals (pending_signals now1 r u db))"
    and d1: "db1 = snd (webrtc_signal_serve now1 db (SignalGet (Some r) (Some u)))"
    by (simp_all add: get_result)
  have gone: "s \<notin> set (webrtc_signals db1)" if "s \<in> set (envelopes resp1)" for s
    using that unfolding r1 d1 by (auto simp: get_result)
  have sub: "set (webrtc_signals db1) \<subseteq> set (webrtc_signals db)"
    unfolding d1 by (auto simp: get_result)
  from pending_after_get [OF assms(3), of r u db] d1
  have "pending_signals now2 r u db1 = []" by simp
  with assms(2) have "resp2 = Response 200 (Signals [])"
    by (simp add: get_result)
  with r1 gone sub show ?thesis by (simp add: pending_signals_def)
qed

theorem receive_at_most_once_witness:
  "fst (webrtc_signal_serve 300200 relay_db (SignalGet (Some 5) (Some 11))) =
     Response 200 (Signals [sig_row 23 11 400 300400, sig_row 21 11 500 300500])
   \<and> sig_row 23 11 400 300400 \<notin> set (webrtc_signals
        (snd (webrtc_signal_serve 300200 relay_db (SignalGet (Some 5) (Some 11)))))
   \<and> sig_row 21 11 500 300500 \<notin> set (webrtc_signals
        (snd (webrtc_signal_serve 300200 relay_db (SignalGet (Some 5) (Some 11)))))
   \<and> fst (webrtc_signal_serve 300300
        (snd (webrtc_signal_serve 300200 relay_db (SignalGet (Some 5) (Some 11))))
        (SignalGet (Some 5) (Some 11))) = Response 200 (Signals [])"
proof -
  have le: "(300200::int) \<le> 300300" by simp
  from receive_at_most_once [OF relay_first relay_second le]
  have "\<forall>s \<in> set (envelopes
                   (Response 200 (Signals [sig_row 23 11 400 300400, sig_row 21 11 500 300500]))).
         s \<notin> set (webrtc_signals (relay_db\<lparr>webrtc_signals :=
                     [sig_row 22 12 600 300600, sig_row 24 11 100 300100]\<rparr>))"
    by blast
  then show ?thesis by (simp add: relay_first relay_second)
qed

section \<open>Properties of the consensus coordinator\<close>

lemma single_map: "single (map f xs) = map_option f (single xs)"
  by (cases xs rule: single.cases) simp_all

lemma filter_map_upd:
  "(\<And>x. P x \<Longrightarrow> P (f x)) \<Longrightarrow>
     filter P (map (\<lambda>x. if P x then f x else x) xs) = map f (filter P xs)"
  by (induction xs) auto

lemma single_filter_upd:
  assumes "single (filter P xs) = Some s" and "\<And>x. P x \<Longrightarrow> P (f x)"
  shows "single (filter P (map (\<lambda>x. if P x then f x else x) xs)) = Some (f s)"
  using assms by (simp add: filter_map_upd single_map)

lemma upsert_has_ballot:
  "\<exists>p \<in> set (ballots (upsert_permission now i sid u g perms) sid).
      perm_user_id p = u \<and> granted p = g"
  by (auto simp: upsert_permission_def ballots_def list_ex_iff)

lemma deny_not_all_granted:
  "\<not> list_all granted (ballots (upsert_permission now i sid u False perms) sid)"
  using upsert_has_ballot [of now i sid u False perms] by (auto simp: list_all_iff)

text \<open>
  What a ballot on a pending screen share does: the response, the session's status
  afterwards, and the tables it touches.
\<close>

lemma screen_share_ballot_outcome:
  assumes "single (filter (\<lambda>s. ws_id s = sid) (webrtc_sessions db)) = Some ss"
    and "md_status (ws_metadata ss) = Some ''pending_permission''"
  shows "fst (screen_share_permission now db (Some sid) (Some u) (Some g)) =
           Response 200 (Ballot
             (if length (ss_vote now db sid u g) = length (online_participants db (ws_room_id ss))
              then (if list_all granted (ss_vote now db sid u g) then ''active'' else ''cancelled'')
              else ''waiting_for_responses'')
             (length (ss_vote now db sid u g)) (length (online_participants db (ws_room_id ss))))"
    and "screen_share_status (snd (screen_share_permission now db (Some sid) (Some u) (Some g))) sid =
           Some (if length (ss_vote now db sid u g) = length (online_participants db (ws_room_id ss))
              then (if list_all granted (ss_vote now db sid u g) then ''active'' else ''cancelled'')
              else ''pending_permission'')"
    and "screen_share_permissions (snd (screen_share_permission now db (Some sid) (Some u) (Some g))) =
           upsert_permission now (next_uuid db) sid u g (screen_share_permissions db)"
    and "participants (snd (screen_share_permission now db (Some sid) (Some u) (Some g))) =
           participants db"
proof -
  show "fst (screen_share_permission now db (Some sid) (Some u) (Some g)) =
           Response 200 (Ballot
             (if length (ss_vote now db sid u g) = length (online_participants db (ws_room_id ss))
              then (if list_all granted (ss_vote now db sid u g) then ''active'' else ''cancelled'')
              else ''waiting_for_responses'')
             (length (ss_vote now db sid u g)) (length (online_participants db (ws_room_id ss))))"
    using assms
    by (simp add: screen_share_permission_def Let_def ss_vote_def ballots_def
          online_participants_def)
  show "screen_share_permissions (snd (screen_share_permission now db (Some sid) (Some u) (Some g))) =
           upsert_permission now (next_uuid db) sid u g (screen_share_permissions db)"
    using assms by (simp add: screen_share_permission_def Let_def)
  show "participants (snd (screen_share_permission now db (Some sid) (Some u) (Some g))) =
           participants db"
    using assms by (simp add: screen_share_permission_def Let_def)
  show "screen_share_status (snd (screen_share_permission now db (Some sid) (Some u) (Some g))) sid =
           Some (if length (ss_vote now db sid u g) = length (online_participants db (ws_room_id ss))
              then (if list_all granted (ss_vote now db sid u g) then ''active'' else ''cancelled'')
              else ''pending_permission'')"
  proof (cases "length (ss_vote now db sid u g) = length (online_participants db (ws_room_id ss))")
    case False
    with assms show ?thesis
      by (simp add: screen_share_permission_def Let_def ss_vote_def ballots_def
            online_participants_def screen_share_status_def)
  next
    case True
    let ?f = "\<lambda>s. s\<lparr>is_active := list_all granted (ss_vote now db sid u g),
                      ws_metadata := (ws_metadata ss)
                        \<lparr>md_status := Some (if list_all granted (ss_vote now db sid u g)
                                            then ''active'' else ''cancelled''),
                         md_permissionGrantedAt :=
                           (if list_all granted (ss_vote now db sid u g) then Some now else None),
                         md_cancelledAt :=
                           (if \<not> list_all granted (ss_vote now db sid u g) then Some now
                            else None)\<rparr>\<rparr>"
    have upd: "single (filter (\<lambda>s. ws_id s = sid)
                 (map (\<lambda>s. if ws_id s = sid then ?f s else s) (webrtc_sessions db))) = Some (?f ss)"
      by (rule single_filter_upd [OF assms(1)]) simp
    have "webrtc_sessions (snd (screen_share_permission now db (Some sid) (Some u) (Some g))) =
            map (\<lambda>s. if ws_id s = sid then ?f s else s) (webrtc_sessions db)"
      using assms True
      by (simp add: screen_share_permission_def Let_def ss_vote_def ballots_def
            online_participants_def if_distrib cong: if_cong)
    with upd True show ?thesis
      by (simp add: screen_share_status_def)
  qed
qed

lemma recording_ballot_outcome:
  assumes "single (filter (\<lambda>s. rs_id s = sid) (recording_sessions db)) = Some rs"
    and "rs_status rs = ''pending_permission''"
  shows "fst (recording_permission now db (Some sid) (Some u) (Some g)) =
           Response 200 (Ballot
             (if length (rec_vote now db sid u g) = length (online_participants db (rs_room_id rs))
              then (if list_all granted (rec_vote now db sid u g) then ''recording'' else ''cancelled'')
              else ''waiting_for_responses'')
             (length (rec_vote now db sid u g)) (length (online_participants db (rs_room_id rs))))"
    and "recording_status (snd (recording_permission now db (Some sid) (Some u) (Some g))) sid =
           Some (if length (rec_vote now db sid u g) = length (online_participants db (rs_room_id rs))
              then (if list_all granted (rec_vote now db sid u g) then ''recording'' else ''cancelled'')
              else ''pending_permission'')"
    and "recording_permissions (snd (recording_permission now db (Some sid) (Some u) (Some g))) =
           upsert_permission now (next_uuid db) sid u g (recording_permissions db)"
    and "participants (snd (recording_permission now db (Some sid) (Some u) (Some g))) =
           participants db"
proof -
  show "fst (recording_permission now db (Some sid) (Some u) (Some g)) =
           Response 200 (Ballot
             (if length (rec_vote now db sid u g) = length (online_participants db (rs_room_id rs))
              then (if list_all granted (rec_vote now db sid u g) then ''recording'' else ''cancelled'')
              else ''waiting_for_responses'')
             (length (rec_vote now db sid u g)) (length (online_participants db (rs_room_id rs))))"
    using assms
    by (simp add: recording_permission_def Let_def rec_vote_def ballots_def
          online_participants_def)
  show "recording_permissions (snd (recording_permission now db (Some sid) (Some u) (Some g))) =
           upsert_permission now (next_uuid db) sid u g (recording_permissions db)"
    using assms by (simp add: recording_permission_def Let_def)
  show "participants (snd (recording_permission now db (Some sid) (Some u) (Some g))) =
           participants db"
    using assms by (simp add: recording_permission_def Let_def)
  show "recording_status (snd (recording_permission now db (Some sid) (Some u) (Some g))) sid =
           Some (if length (rec_vote now db sid u g) = length (online_participants db (rs_room_id rs))
              then (if list_all granted (rec_vote now db sid u g) then ''recording'' else ''cancelled'')
              else ''pending_permission'')"
  proof (cases "length (rec_vote now db sid u g) = length (online_participants db (rs_room_id rs))")
    case False
    with assms show ?thesis
      by (simp add: recording_permission_def Let_def rec_vote_def ballots_def
            online_participants_def recording_status_def)
  next
    case True
    let ?st = "if list_all granted (rec_vote now db sid u g) then ''recording'' else ''cancelled''"
    let ?f = "\<lambda>s. s\<lparr>rs_status := ?st,
                      rs_started_at := (if ?st = ''recording'' then now else rs_started_at s),
                      rs_ended_at := (if ?st = ''cancelled'' then Some now else rs_ended_at s)\<rparr>"
    have upd: "single (filter (\<lambda>s. rs_id s = sid)
                 (map (\<lambda>s. if rs_id s = sid then ?f s else s) (recording_sessions db))) = Some (?f rs)"
      by (rule single_filter_upd [OF assms(1)]) simp
    have "recording_sessions (snd (recording_permission now db (Some sid) (Some u) (Some g))) =
            map (\<lambda>s. if rs_id s = sid then ?f s else s) (recording_sessions db)"
      using assms True
      by (simp add: recording_permission_def Let_def rec_vote_def ballots_def
            online_participants_def)
    with upd True show ?thesis
      by (simp add: recording_status_def)
  qed
qed

lemma room_request:
  "request_screen_share 1000 room_db (Some 5) (Some 10) =
     (Response 200 (Requested 100 [(10, ''Alice''), (11, ''Bob''), (12, ''Carol'')]),
      room_share_db)"
  by (simp add: request_screen_share_def room_db_def empty_db_def alice_def bob_def carol_def
        single_in_status_def webrtc_sessions_status_def online_participants_def Let_def
        room_share_db_def pending_share_def)

lemma room_share_single:
  "single (filter (\<lambda>s. ws_id s = 100) (webrtc_sessions room_share_db)) = Some (pending_share 3)"
  by (simp add: room_share_db_def pending_share_def)

lemma room_recording_single:
  "single (filter (\<lambda>s. rs_id s = 100) (recording_sessions room_recording_db)) =
     Some (pending_recording 3)"
  by (simp add: room_recording_db_def pending_recording_def)

lemma voted_single:
  "single (filter (\<lambda>s. ws_id s = 100) (webrtc_sessions room_share_voted_db)) = Some (pending_share 3)"
  by (simp add: room_share_voted_db_def room_share_db_def pending_share_def)

lemma pending_share_status: "md_status (ws_metadata (pending_share n)) = Some ''pending_permission''"
  by (simp add: pending_share_def)

lemma pending_recording_status: "rs_status (pending_recording n) = ''pending_permission''"
  by (simp add: pending_recording_def)

lemma voted_deny_perms:
  "screen_share_permissions
     (snd (screen_share_permission 2000 room_share_voted_db (Some 100) (Some 12) (Some False))) =
   two_grants @ [\<lparr>perm_id = 103, perm_session_id = 100, perm_user_id = 12, granted = False,
       granted_at = 2000\<rparr>]"
  by (simp add: screen_share_ballot_outcome(3) [OF voted_single pending_share_status])
     (simp add: upsert_permission_def room_share_voted_db_def two_grants_def)

lemma voted_deny_participants:
  "participants
     (snd (screen_share_permission 2000 room_share_voted_db (Some 100) (Some 12) (Some False))) =
   [alice, bob, carol]"
  by (simp add: screen_share_ballot_outcome(4) [OF voted_single pending_share_status])
     (simp add: room_share_voted_db_def room_share_db_def room_db_def)

lemma first_deny_perms:
  "recording_permissions
     (snd (recording_permission 2000 room_recording_db (Some 100) (Some 12) (Some False))) =
   [\<lparr>perm_id = 101, perm_session_id = 100, perm_user_id = 12, granted = False,
       granted_at = 2000\<rparr>]"
  by (simp add: recording_ballot_outcome(3) [OF room_recording_single pending_recording_status])
     (simp add: upsert_permission_def room_recording_db_def room_db_def empty_db_def)

lemma first_deny_participants:
  "participants
     (snd (recording_permission 2000 room_recording_db (Some 100) (Some 12) (Some False))) =
   [alice, bob, carol]"
  by (simp add: recording_ballot_outcome(4) [OF room_recording_single pending_recording_status])
     (simp add: room_recording_db_def room_db_def)

lemma pair_request:
  "request_screen_share 1000 pair_db (Some 5) (Some 10) =
     (Response 200 (Requested 100 [(10, ''Alice''), (11, ''Bob'')]), pair_share_db)"
  by (simp add: request_screen_share_def pair_db_def empty_db_def alice_def bob_def
        single_in_status_def webrtc_sessions_status_def online_participants_def Let_def
        pair_share_db_def pending_share_def)

lemma bob_leaves:
  "update_presence 1500 pair_share_db (Some 11) (Some False) None =
     (Response 200 (PresenceUpdated (bob\<lparr>last_seen := 1500, is_online := False\<rparr>)),
      pair_share_db\<lparr>participants := [alice, bob\<lparr>last_seen := 1500, is_online := False\<rparr>]\<rparr>)"
  by (simp add: update_presence_def pair_share_db_def pair_db_def empty_db_def alice_def bob_def
        Let_def)

lemma pair_left_single:
  "single (filter (\<lambda>s. ws_id s = 100) (webrtc_sessions pair_left_db)) = Some (pending_share 2)"
  by (simp add: pair_left_db_def pair_share_db_def pending_share_def)

lemma voted_grant_perms:
  "screen_share_permissions
     (snd (screen_share_permission 2000 room_share_voted_db (Some 100) (Some 12) (Some True))) =
   two_grants @ [\<lparr>perm_id = 103, perm_session_id = 100, perm_user_id = 12, granted = True,
       granted_at = 2000\<rparr>]"
  by (simp add: screen_share_ballot_outcome(3) [OF voted_single pending_share_status])
     (simp add: upsert_permission_def room_share_voted_db_def two_grants_def)

lemma voted_grant_participants:
  "participants
     (snd (screen_share_permission 2000 room_share_voted_db (Some 100) (Some 12) (Some True))) =
   [alice, bob, carol]"
  by (simp add: screen_share_ballot_outcome(4) [OF voted_single pending_share_status])
     (simp add: room_share_voted_db_def room_share_db_def room_db_def)

lemma first_grant_perms:
  "recording_permissions
     (snd (recording_permission 2000 room_recording_db (Some 100) (Some 12) (Some True))) =
   [\<lparr>perm_id = 101, perm_session_id = 100, perm_user_id = 12, granted = True,
       granted_at = 2000\<rparr>]"
  by (simp add: recording_ballot_outcome(3) [OF room_recording_single pending_recording_status])
     (simp add: upsert_permission_def room_recording_db_def room_db_def empty_db_def)

lemma first_grant_participants:
  "participants
     (snd (recording_permission 2000 room_recording_db (Some 100) (Some 12) (Some True))) =
   [alice, bob, carol]"
  by (simp add: recording_ballot_outcome(4) [OF room_recording_single pending_recording_status])
     (simp add: room_recording_db_def room_db_def)

lemma overwrite_keeps_count:
  "length (filter ((\<lambda>p. perm_session_id p = sid) \<circ>
      (\<lambda>p. if perm_session_id p = sid \<and> perm_user_id p = u then p\<lparr>granted := g\<rparr> else p)) xs)
   = length (filter (\<lambda>p. perm_session_id p = sid) xs)"
  by (rule arg_cong [where f = length], rule filter_cong) simp_all

lemma upsert_keeps_key:
  "list_ex (\<lambda>p. perm_session_id p = sid \<and> perm_user_id p = u)
     (upsert_permission t i sid u g perms)"
proof (cases "list_ex (\<lambda>p. perm_session_id p = sid \<and> perm_user_id p = u) perms")
  case True
  then obtain p where p: "p \<in> set perms" "perm_session_id p = sid" "perm_user_id p = u"
    unfolding list_ex_iff by blast
  let ?f = "\<lambda>p. if perm_session_id p = sid \<and> perm_user_id p = u then p\<lparr>granted := g\<rparr> else p"
  from p(1) have "?f p \<in> ?f ` set perms" by (rule imageI)
  with True p have "p\<lparr>granted := g\<rparr> \<in> set (upsert_permission t i sid u g perms)"
    by (simp add: upsert_permission_def)
  moreover from p have "perm_session_id (p\<lparr>granted := g\<rparr>) = sid \<and> perm_user_id (p\<lparr>granted := g\<rparr>) = u"
    by simp
  ultimately show ?thesis unfolding list_ex_iff by (rule bexI [rotated])
next
  case False
  then show ?thesis by (simp add: upsert_permission_def)
qed

lemma upsert_twice_ballots:
  "length (ballots (upsert_permission t2 i2 sid u g2 (upsert_permission t1 i1 sid u g1 perms)) sid)
     = length (ballots (upsert_permission t1 i1 sid u g1 perms) sid)"
proof -
  define xs where "xs = upsert_permission t1 i1 sid u g1 perms"
  have k: "list_ex (\<lambda>p. perm_session_id p = sid \<and> perm_user_id p = u) xs"
    unfolding xs_def by (rule upsert_keeps_key)
  have "upsert_permission t2 i2 sid u g2 xs =
          map (\<lambda>p. if perm_session_id p = sid \<and> perm_user_id p = u
                    then p\<lparr>granted := g2\<rparr> else p) xs"
    using k by (simp only: upsert_permission_def if_True)
  then have "length (ballots (upsert_permission t2 i2 sid u g2 xs) sid) = length (ballots xs sid)"
    by (simp only: ballots_def length_filter_map overwrite_keeps_count)
  then show ?thesis unfolding xs_def .
qed

lemma screen_share_rejected:
  assumes "\<not> (\<exists>ss. single (filter (\<lambda>s. ws_id s = sid) (webrtc_sessions db)) = Some ss
            \<and> md_status (ws_metadata ss) = Some ''pending_permission'')"
  shows "snd (screen_share_permission t db (Some sid) (Some u) (Some g)) = db"
proof (cases "single (filter (\<lambda>s. ws_id s = sid) (webrtc_sessions db))")
  case None
  then show ?thesis by (simp add: screen_share_permission_def)
next
  case (Some ss)
  with assms have "md_status (ws_metadata ss) \<noteq> Some ''pending_permission''" by blast
  with Some show ?thesis by (simp add: screen_share_permission_def)
qed

lemma recording_rejected:
  assumes "\<not> (\<exists>rs. single (filter (\<lambda>s. rs_id s = sid) (recording_sessions db)) = Some rs
            \<and> rs_status rs = ''pending_permission'')"
  shows "snd (recording_permission t db (Some sid) (Some u) (Some g)) = db"
proof (cases "single (filter (\<lambda>s. rs_id s = sid) (recording_sessions db))")
  case None
  then show ?thesis by (simp add: recording_permission_def)
next
  case (Some rs)
  with assms have "rs_status rs \<noteq> ''pending_permission''" by blast
  with Some show ?thesis by (simp add: recording_permission_def)
qed

lemma screen_share_repeat:
  "length (ballots (screen_share_permissions
      (snd (screen_share_permission t2
             (snd (screen_share_permission t1 db (Some sid) (Some u) (Some g1)))
             (Some sid) (Some u) (Some g2)))) sid)
   = length (ballots (screen_share_permissions
      (snd (screen_share_permission t1 db (Some sid) (Some u) (Some g1)))) sid)"
proof (cases "\<exists>ss. single (filter (\<lambda>s. ws_id s = sid) (webrtc_sessions db)) = Some ss
            \<and> md_status (ws_metadata ss) = Some ''pending_permission''")
  case False
  note r = screen_share_rejected [OF False]
  show ?thesis by (simp only: r)
next
  case True
  let ?db1 = "snd (screen_share_permission t1 db (Some sid) (Some u) (Some g1))"
  from True obtain ss where "single (filter (\<lambda>s. ws_id s = sid) (webrtc_sessions db)) = Some ss"
      "md_status (ws_metadata ss) = Some ''pending_permission''" by blast
  from screen_share_ballot_outcome(3) [OF this]
  have p1: "screen_share_permissions ?db1 =
          upsert_permission t1 (next_uuid db) sid u g1 (screen_share_permissions db)" .
  show ?thesis
  proof (cases "\<exists>ss. single (filter (\<lambda>s. ws_id s = sid) (webrtc_sessions ?db1)) = Some ss
            \<and> md_status (ws_metadata ss) = Some ''pending_permission''")
    case False
    note r = screen_share_rejected [OF False]
    show ?thesis by (simp only: r)
  next
    case True
    then obtain s1 where "single (filter (\<lambda>s. ws_id s = sid) (webrtc_sessions ?db1)) = Some s1"
      "md_status (ws_metadata s1) = Some ''pending_permission''" by blast
    from screen_share_ballot_outcome(3) [OF this]
    have "screen_share_permissions (snd (screen_share_permission t2 ?db1 (Some sid) (Some u) (Some g2)))
       = upsert_permission t2 (next_uuid ?db1) sid u g2 (screen_share_permissions ?db1)" .
    then show ?thesis by (simp only: p1 upsert_twice_ballots)
  qed
qed

lemma recording_repeat:
  "length (ballots (recording_permissions
      (snd (recording_permission t2
             (snd (recording_permission t1 db (Some sid) (Some u) (Some g1)))
             (Some sid) (Some u) (Some g2)))) sid)
   = length (ballots (recording_permissions
      (snd (recording_permission t1 db (Some sid) (Some u) (Some g1)))) sid)"
proof (cases "\<exists>rs. single (filter (\<lambda>s. rs_id s = sid) (recording_sessions db)) = Some rs
            \<and> rs_status rs = ''pending_permission''")
  case False
  note r = recording_rejected [OF False]
  show ?thesis by (simp only: r)
next
  case True
  let ?db1 = "snd (recording_permission t1 db (Some sid) (Some u) (Some g1))"
  from True obtain rs where "single (filter (\<lambda>s. rs_id s = sid) (recording_sessions db)) = Some rs"
      "rs_status rs = ''pending_permission''" by blast
  from recording_ballot_outcome(3) [OF this]
  have p1: "recording_permissions ?db1 =
          upsert_permission t1 (next_uuid db) sid u g1 (recording_permissions db)" .
  show ?thesis
  proof (cases "\<exists>rs. single (filter (\<lambda>s. rs_id s = sid) (recording_sessions ?db1)) = Some rs
            \<and> rs_status rs = ''pending_permission''")
    case False
    note r = recording_rejected [OF False]
    show ?thesis by (simp only: r)
  next
    case True
    then obtain s1 where "single (filter (\<lambda>s. rs_id s = sid) (recording_sessions ?db1)) = Some s1"
      "rs_status s1 = ''pending_permission''" by blast
    from recording_ballot_outcome(3) [OF this]
    have "recording_permissions (snd (recording_permission t2 ?db1 (Some sid) (Some u) (Some g2)))
       = upsert_permission t2 (next_uuid ?db1) sid u g2 (recording_permissions ?db1)" .
    then show ?thesis by (simp only: p1 upsert_twice_ballots)
  qed
qed

lemma first_vote_perms:
  "screen_share_permissions
     (snd (screen_share_permission 2000 room_share_db (Some 100) (Some 12) (Some True))) =
   [\<lparr>perm_id = 101, perm_session_id = 100, perm_user_id = 12, granted = True,
      granted_at = 2000\<rparr>]"
  by (simp add: screen_share_ballot_outcome(3) [OF room_share_single pending_share_status])
     (simp add: upsert_permission_def room_share_db_def room_db_def empty_db_def)

lemma single_short: "length xs \<le> 1 \<Longrightarrow> (single xs = None) = (xs = [])"
  by (cases xs rule: single.cases) simp_all

lemma filter_nonempty: "(filter P xs \<noteq> []) = (\<exists>x \<in> set xs. P x)"
  by (simp add: filter_empty_conv)

lemma request_recording_host:
  assumes "single (filter (\<lambda>p. p_user_id p = u \<and> p_room_id p = r) (participants db)) = Some host"
    and "is_host host"
  shows "request_recording now db (Some r) (Some u) =
    (case single (filter (\<lambda>s. rs_room_id s = r \<and>
                    rs_status s \<in> set [''recording'', ''pending_permission''])
                 (recording_sessions db)) of
       Some existingRecording \<Rightarrow>
         (Response 409 (CoordError ''Recording already in progress or pending permission''), db)
     | None \<Rightarrow>
         (Response 200 (Requested (next_uuid db)
             (map (\<lambda>p. (p_user_id p, display_name p)) (online_participants db r))),
          db\<lparr>recording_sessions := recording_sessions db @
               [\<lparr>rs_id = next_uuid db, rs_room_id = r, started_by = u,
                 rs_started_at = now, rs_ended_at = None,
                 rs_status = ''pending_permission'',
                 twitter_optimized = False, download_count = 0,
                 rs_metadata =
                   \<lparr>md_status = None, md_hostName = Some (display_name host),
                    md_participantCount = Some (length (online_participants db r)),
                    md_requestedAt = Some now,
                    md_permissionGrantedAt = None, md_cancelledAt = None\<rparr>\<rparr>],
             next_uuid := Suc (next_uuid db)\<rparr>))"
  using assms
  by (simp add: request_recording_def single_in_status_def recording_sessions_status_def Let_def
      split: option.splits)

lemma recording_room_request:
  "request_recording 1000 room_db (Some 5) (Some 10) =
     (Response 200 (Requested 100 [(10, ''Alice''), (11, ''Bob''), (12, ''Carol'')]),
      room_recording_db)"
  by (simp add: request_recording_def room_db_def empty_db_def alice_def bob_def carol_def
        single_in_status_def recording_sessions_status_def online_participants_def Let_def
        room_recording_db_def pending_recording_def)

lemma bob_single:
  "single (filter (\<lambda>p. p_user_id p = 11 \<and> p_room_id p = 5) (participants room_recording_db)) = Some bob"
  by (simp add: room_recording_db_def room_db_def alice_def bob_def carol_def)

lemma alice_single:
  "single (filter (\<lambda>p. p_user_id p = 10 \<and> p_room_id p = 5) (participants room_recording_db)) = Some alice"
  by (simp add: room_recording_db_def room_db_def alice_def bob_def carol_def)

text \<open>
  The request for a screen share never answers 409: its query for a session in progress
  filters on a column that \<open>webrtc_sessions\<close> does not have.
\<close>

lemma screen_share_request_no_conflict:
  "http_status (fst (request_screen_share now db roomId userId)) \<noteq> 409"
  by (simp add: request_screen_share_def single_in_status_def webrtc_sessions_status_def Let_def
      split: option.splits)

lemma upsert_again:
  assumes "list_ex (\<lambda>p. perm_session_id p = sid \<and> perm_user_id p = u) xs"
  shows "ballots (upsert_permission t i sid u g xs) sid =
           map (\<lambda>p. if perm_user_id p = u then p\<lparr>granted := g\<rparr> else p) (ballots xs sid)"
proof -
  have "filter (\<lambda>p. perm_session_id p = sid)
          (map (\<lambda>p. if perm_session_id p = sid \<and> perm_user_id p = u
                    then p\<lparr>granted := g\<rparr> else p) ys) =
        map (\<lambda>p. if perm_user_id p = u then p\<lparr>granted := g\<rparr> else p)
          (filter (\<lambda>p. perm_session_id p = sid) ys)" for ys :: "permission_row list"
    by (induction ys) simp_all
  with assms show ?thesis by (simp only: upsert_permission_def ballots_def if_True)
qed

lemma voter_has_ballot:
  "list_ex (\<lambda>p. perm_user_id p = u) (ballots (upsert_permission t i sid u g xs) sid)"
  using upsert_has_ballot [of t i sid u g xs] unfolding list_ex_iff by blast

lemma screen_share_status_pending:
  "(screen_share_status db sid = Some ''pending_permission'') =
     (\<exists>ss. single (filter (\<lambda>s. ws_id s = sid) (webrtc_sessions db)) = Some ss
            \<and> md_status (ws_metadata ss) = Some ''pending_permission'')"
  by (cases "single (filter (\<lambda>s. ws_id s = sid) (webrtc_sessions db))")
     (simp_all add: screen_share_status_def)

lemma recording_status_pending:
  "(recording_status db sid = Some ''pending_permission'') =
     (\<exists>rs. single (filter (\<lambda>s. rs_id s = sid) (recording_sessions db)) = Some rs
            \<and> rs_status rs = ''pending_permission'')"
  by (cases "single (filter (\<lambda>s. rs_id s = sid) (recording_sessions db))")
     (simp_all add: recording_status_def)

lemma screen_share_second_ballot:
  assumes "screen_share_status
             (snd (screen_share_permission t1 db (Some sid) (Some u) (Some g1))) sid =
           Some ''pending_permission''"
  shows "ballots (screen_share_permissions
           (snd (screen_share_permission t2
                  (snd (screen_share_permission t1 db (Some sid) (Some u) (Some g1)))
                  (Some sid) (Some u) (Some g2)))) sid =
         map (\<lambda>p. if perm_user_id p = u then p\<lparr>granted := g2\<rparr> else p)
           (ballots (screen_share_permissions
              (snd (screen_share_permission t1 db (Some sid) (Some u) (Some g1)))) sid)"
    and "list_ex (\<lambda>p. perm_user_id p = u)
           (ballots (screen_share_permissions
              (snd (screen_share_permission t1 db (Some sid) (Some u) (Some g1)))) sid)"
proof -
  let ?db1 = "snd (screen_share_permission t1 db (Some sid) (Some u) (Some g1))"
  have acc: "\<exists>ss. single (filter (\<lambda>s. ws_id s = sid) (webrtc_sessions db)) = Some ss
            \<and> md_status (ws_metadata ss) = Some ''pending_permission''"
  proof (rule ccontr)
    assume n: "\<not> ?thesis"
    from screen_share_rejected [OF n] have "?db1 = db" .
    with assms n show False by (simp only: screen_share_status_pending)
  qed
  then obtain ss where "single (filter (\<lambda>s. ws_id s = sid) (webrtc_sessions db)) = Some ss"
      "md_status (ws_metadata ss) = Some ''pending_permission''" by blast
  from screen_share_ballot_outcome(3) [OF this]
  have p1: "screen_share_permissions ?db1 =
          upsert_permission t1 (next_uuid db) sid u g1 (screen_share_permissions db)" .
  from assms obtain s1 where "single (filter (\<lambda>s. ws_id s = sid) (webrtc_sessions ?db1)) = Some s1"
      "md_status (ws_metadata s1) = Some ''pending_permission''"
    unfolding screen_share_status_pending by blast
  from screen_share_ballot_outcome(3) [OF this]
  have p2: "screen_share_permissions (snd (screen_share_permission t2 ?db1 (Some sid) (Some u) (Some g2)))
       = upsert_permission t2 (next_uuid ?db1) sid u g2 (screen_share_permissions ?db1)" .
  have k: "list_ex (\<lambda>p. perm_session_id p = sid \<and> perm_user_id p = u)
             (screen_share_permissions ?db1)"
    unfolding p1 by (rule upsert_keeps_key)
  show "ballots (screen_share_permissions
           (snd (screen_share_permission t2 ?db1 (Some sid) (Some u) (Some g2)))) sid =
         map (\<lambda>p. if perm_user_id p = u then p\<lparr>granted := g2\<rparr> else p)
           (ballots (screen_share_permissions ?db1) sid)"
    unfolding p2 by (rule upsert_again [OF k])
  show "list_ex (\<lambda>p. perm_user_id p = u) (ballots (screen_share_permissions ?db1) sid)"
    unfolding p1 by (rule voter_has_ballot)
qed

lemma recording_second_ballot:
  assumes "recording_status
             (snd (recording_permission t1 db (Some sid) (Some u) (Some g1))) sid =
           Some ''pending_permission''"
  shows "ballots (recording_permissions
           (snd (recording_permission t2
                  (snd (recording_permission t1 db (Some sid) (Some u) (Some g1)))
                  (Some sid) (Some u) (Some g2)))) sid =
         map (\<lambda>p. if perm_user_id p = u then p\<lparr>granted := g2\<rparr> else p)
           (ballots (recording_permissions
              (snd (recording_permission t1 db (Some sid) (Some u) (Some g1)))) sid)"
    and "list_ex (\<lambda>p. perm_user_id p = u)
           (ballots (recording_permissions
              (snd (recording_permission t1 db (Some sid) (Some u) (Some g1)))) sid)"
proof -
  let ?db1 = "snd (recording_permission t1 db (Some sid) (Some u) (Some g1))"
  have acc: "\<exists>rs. single (filter (\<lambda>s. rs_id s = sid) (recording_sessions db)) = Some rs
            \<and> rs_status rs = ''pending_permission''"
  proof (rule ccontr)
    assume n: "\<not> ?thesis"
    from recording_rejected [OF n] have "?db1 = db" .
    with assms n show False by (simp only: recording_status_pending)
  qed
  then obtain rs where "single (filter (\<lambda>s. rs_id s = sid) (recording_sessions db)) = Some rs"
      "rs_status rs = ''pending_permission''" by blast
  from recording_ballot_outcome(3) [OF this]
  have p1: "recording_permissions ?db1 =
          upsert_permission t1 (next_uuid db) sid u g1 (recording_permissions db)" .
  from assms obtain s1 where "single (filter (\<lambda>s. rs_id s = sid) (recording_sessions ?db1)) = Some s1"
      "rs_status s1 = ''pending_permission''"
    unfolding recording_status_pending by blast
  from recording_ballot_outcome(3) [OF this]
  have p2: "recording_permissions (snd (recording_permission t2 ?db1 (Some sid) (Some u) (Some g2)))
       = upsert_permission t2 (next_uuid ?db1) sid u g2 (recording_permissions ?db1)" .
  have k: "list_ex (\<lambda>p. perm_session_id p = sid \<and> perm_user_id p = u)
             (recording_permissions ?db1)"
    unfolding p1 by (rule upsert_keeps_key)
  show "ballots (recording_permissions
           (snd (recording_permission t2 ?db1 (Some sid) (Some u) (Some g2)))) sid =
         map (\<lambda>p. if perm_user_id p = u then p\<lparr>granted := g2\<rparr> else p)
           (ballots (recording_permissions ?db1) sid)"
    unfolding p2 by (rule upsert_again [OF k])
  show "list_ex (\<lambda>p. perm_user_id p = u) (ballots (recording_permissions ?db1) sid)"
    unfolding p1 by (rule voter_has_ballot)
qed

lemma screen_share_late_ballot:
  assumes "screen_share_status db sid \<noteq> Some ''pending_permission''"
  shows "snd (screen_share_permission t db (Some sid) (Some u) (Some g)) = db"
    and "http_status (fst (screen_share_permission t db (Some sid) (Some u) (Some g))) \<noteq> 200"
proof -
  from assms have n: "\<not> (\<exists>ss. single (filter (\<lambda>s. ws_id s = sid) (webrtc_sessions db)) = Some ss
            \<and> md_status (ws_metadata ss) = Some ''pending_permission'')"
    unfolding screen_share_status_pending .
  from screen_share_rejected [OF n] show "snd (screen_share_permission t db (Some sid) (Some u) (Some g)) = db" .
  show "http_status (fst (screen_share_permission t db (Some sid) (Some u) (Some g))) \<noteq> 200"
  proof (cases "single (filter (\<lambda>s. ws_id s = sid) (webrtc_sessions db))")
    case None
    then show ?thesis by (simp add: screen_share_permission_def)
  next
    case (Some ss)
    with n have "md_status (ws_metadata ss) \<noteq> Some ''pending_permission''" by blast
    with Some show ?thesis by (simp add: screen_share_permission_def)
  qed
qed

lemma recording_late_ballot:
  assumes "recording_status db sid \<noteq> Some ''pending_permission''"
  shows "snd (recording_permission t db (Some sid) (Some u) (Some g)) = db"
    and "http_status (fst (recording_permission t db (Some sid) (Some u) (Some g))) \<noteq> 200"
proof -
  from assms have n: "\<not> (\<exists>rs. single (filter (\<lambda>s. rs_id s = sid) (recording_sessions db)) = Some rs
            \<and> rs_status rs = ''pending_permission'')"
    unfolding recording_status_pending .
  from recording_rejected [OF n] show "snd (recording_permission t db (Some sid) (Some u) (Some g)) = db" .
  show "http_status (fst (recording_permission t db (Some sid) (Some u) (Some g))) \<noteq> 200"
  proof (cases "single (filter (\<lambda>s. rs_id s = sid) (recording_sessions db))")
    case None
    then show ?thesis by (simp add: recording_permission_def)
  next
    case (Some rs)
    with n have "rs_status rs \<noteq> ''pending_permission''" by blast
    with Some show ?thesis by (simp add: recording_permission_def)
  qed
qed

lemma screen_share_not_pending_response:
  assumes "single (filter (\<lambda>s. ws_id s = sid) (webrtc_sessions db)) = Some ss"
    and "md_status (ws_metadata ss) \<noteq> Some ''pending_permission''"
  shows "screen_share_permission t db (Some sid) (Some u) (Some g) =
           (Response 400 (CoordError ''Screen share session not requesting permission''), db)"
  using assms by (simp add: screen_share_permission_def)

lemma pair_left_grant:
  "fst (screen_share_permission 2000 pair_left_db (Some 100) (Some 10) (Some True)) =
     Response 200 (Ballot ''active'' 1 1)"
  "screen_share_status
     (snd (screen_share_permission 2000 pair_left_db (Some 100) (Some 10) (Some True))) 100 =
     Some ''active''"
  "screen_share_permissions
     (snd (screen_share_permission 2000 pair_left_db (Some 100) (Some 10) (Some True))) =
     [\<lparr>perm_id = 101, perm_session_id = 100, perm_user_id = 10, granted = True,
       granted_at = 2000\<rparr>]"
proof -
  have v: "ss_vote 2000 pair_left_db 100 10 True =
      [\<lparr>perm_id = 101, perm_session_id = 100, perm_user_id = 10, granted = True,
        granted_at = 2000\<rparr>]"
    by (simp add: ss_vote_def ballots_def upsert_permission_def pair_left_db_def
          pair_share_db_def pair_db_def empty_db_def)
  have n: "length (online_participants pair_left_db (ws_room_id (pending_share 2))) = 1"
    by (simp add: online_participants_def pair_left_db_def pair_share_db_def pair_db_def
          empty_db_def pending_share_def alice_def bob_def)
  note o = screen_share_ballot_outcome [OF pair_left_single pending_share_status, of 2000 10 True]
  from o(1) show "fst (screen_share_permission 2000 pair_left_db (Some 100) (Some 10) (Some True)) =
     Response 200 (Ballot ''active'' 1 1)"
    by (simp add: v n)
  from o(2) show "screen_share_status
     (snd (screen_share_permission 2000 pair_left_db (Some 100) (Some 10) (Some True))) 100 =
     Some ''active''"
    by (simp add: v n)
  show "screen_share_permissions
     (snd (screen_share_permission 2000 pair_left_db (Some 100) (Some 10) (Some True))) =
     [\<lparr>perm_id = 101, perm_session_id = 100, perm_user_id = 10, granted = True,
       granted_at = 2000\<rparr>]"
    by (simp add: o(3))
       (simp add: upsert_permission_def pair_left_db_def pair_share_db_def pair_db_def
          empty_db_def)
qed

lemma pair_left_reached:
  "snd (update_presence 1500 (snd (request_screen_share 1000 pair_db (Some 5) (Some 10)))
          (Some 11) (Some False) None) = pair_left_db"
  by (simp add: pair_request bob_leaves pair_left_db_def)

lemma first_vote_pending:
  "screen_share_status
     (snd (screen_share_permission 2000 room_share_db (Some 100) (Some 12) (Some True))) 100 =
   Some ''pending_permission''"
proof -
  have v: "length (ss_vote 2000 room_share_db 100 12 True) = 1"
    by (simp add: ss_vote_def ballots_def upsert_permission_def room_share_db_def room_db_def
          empty_db_def)
  have n: "length (online_participants room_share_db (ws_room_id (pending_share 3))) = 3"
    by (simp add: online_participants_def room_share_db_def room_db_def empty_db_def
          pending_share_def alice_def bob_def carol_def)
  from screen_share_ballot_outcome(2) [OF room_share_single pending_share_status, of 2000 12 True]
  show ?thesis by (simp add: v n)
qed

lemma second_share_request:
  "request_screen_share 2000 room_share_db (Some 5) (Some 11) =
     (Response 200 (Requested 101 [(10, ''Alice''), (11, ''Bob''), (12, ''Carol'')]),
      room_share_db\<lparr>webrtc_sessions :=
         [pending_share 3,
          \<lparr>ws_id = 101, ws_room_id = 5, session_type = ''screen_share'', host_user_id = 11,
           ws_started_at = 2000, ws_ended_at = None, is_active = False,
           ws_metadata = \<lparr>md_status = Some ''pending_permission'', md_hostName = Some ''Bob'',
             md_participantCount = Some 3, md_requestedAt = Some 2000,
             md_permissionGrantedAt = None, md_cancelledAt = None\<rparr>\<rparr>],
         next_uuid := 102\<rparr>)"
  by (simp add: request_screen_share_def room_share_db_def room_db_def empty_db_def alice_def
        bob_def carol_def single_in_status_def webrtc_sessions_status_def
        online_participants_def Let_def)

text \<open>
  Claim C1 says that a ballot with \<open>granted = false\<close> cancels a pending session on that
  very call, however many participants have not answered. In a room of three, the first
  ballot is Carol's denial: the answer is \<open>waiting_for_responses\<close> (1 of 3) and the
  session is still pending.
\<close>

theorem deny_waits_counterexample:
  "fst (request_screen_share 1000 room_db (Some 5) (Some 10)) =
     Response 200 (Requested 100 [(10, ''Alice''), (11, ''Bob''), (12, ''Carol'')])
   \<and> screen_share_status (snd (request_screen_share 1000 room_db (Some 5) (Some 10))) 100 =
       Some ''pending_permission''
   \<and> fst (screen_share_permission 2000
            (snd (request_screen_share 1000 room_db (Some 5) (Some 10)))
            (Some 100) (Some 12) (Some False)) =
       Response 200 (Ballot ''waiting_for_responses'' 1 3)
   \<and> screen_share_status
        (snd (screen_share_permission 2000
               (snd (request_screen_share 1000 room_db (Some 5) (Some 10)))
               (Some 100) (Some 12) (Some False))) 100 =
       Some ''pending_permission''"
proof -
  have p: "md_status (ws_metadata (pending_share 3)) = Some ''pending_permission''"
    by (simp add: pending_share_def)
  have v: "length (ss_vote 2000 room_share_db 100 12 False) = 1"
    by (simp add: ss_vote_def ballots_def upsert_permission_def room_share_db_def room_db_def
          empty_db_def)
  have n: "length (online_participants room_share_db (ws_room_id (pending_share 3))) = 3"
    by (simp add: online_participants_def room_share_db_def room_db_def empty_db_def
          pending_share_def alice_def bob_def carol_def)
  have s: "screen_share_status room_share_db 100 = Some ''pending_permission''"
    by (simp add: screen_share_status_def room_share_single p)
  show ?thesis
    using screen_share_ballot_outcome(1,2) [OF room_share_single p, of 2000 12 False] s
    by (simp add: room_request v n)
qed

text \<open>
  Claim C1, amended: a ballot with \<open>granted = false\<close> on a pending session (screen share
  or recording) cancels it on that call exactly when, with this ballot recorded, the
  number of ballots of the session equals the number of participants online in its room;
  otherwise the session stays pending.
\<close>

theorem deny_cancels_once_all_responded:
  "(single (filter (\<lambda>s. ws_id s = sid) (webrtc_sessions db)) = Some ss
      \<and> md_status (ws_metadata ss) = Some ''pending_permission'' \<longrightarrow>
    (let db' = snd (screen_share_permission now db (Some sid) (Some u) (Some False))
     in screen_share_status db' sid =
          Some (if length (ballots (screen_share_permissions db') sid) =
                   length (online_participants db' (ws_room_id ss))
                then ''cancelled'' else ''pending_permission'')))
   \<and> (single (filter (\<lambda>s. rs_id s = sid) (recording_sessions db)) = Some rs
      \<and> rs_status rs = ''pending_permission'' \<longrightarrow>
    (let db' = snd (recording_permission now db (Some sid) (Some u) (Some False))
     in recording_status db' sid =
          Some (if length (ballots (recording_permissions db') sid) =
                   length (online_participants db' (rs_room_id rs))
                then ''cancelled'' else ''pending_permission'')))"
proof (intro conjI impI)
  assume a: "single (filter (\<lambda>s. ws_id s = sid) (webrtc_sessions db)) = Some ss
      \<and> md_status (ws_metadata ss) = Some ''pending_permission''"
  then have a1: "single (filter (\<lambda>s. ws_id s = sid) (webrtc_sessions db)) = Some ss"
    and a2: "md_status (ws_metadata ss) = Some ''pending_permission''" by simp_all
  note o = screen_share_ballot_outcome [OF a1 a2, of now u False]
  have "\<not> list_all granted (ss_vote now db sid u False)"
    by (simp add: ss_vote_def deny_not_all_granted)
  with o show "let db' = snd (screen_share_permission now db (Some sid) (Some u) (Some False))
     in screen_share_status db' sid =
          Some (if length (ballots (screen_share_permissions db') sid) =
                   length (online_participants db' (ws_room_id ss))
                then ''cancelled'' else ''pending_permission'')"
    by (simp add: Let_def ss_vote_def online_participants_def)
next
  assume a: "single (filter (\<lambda>s. rs_id s = sid) (recording_sessions db)) = Some rs
      \<and> rs_status rs = ''pending_permission''"
  then have a1: "single (filter (\<lambda>s. rs_id s = sid) (recording_sessions db)) = Some rs"
    and a2: "rs_status rs = ''pending_permission''" by simp_all
  note o = recording_ballot_outcome [OF a1 a2, of now u False]
  have "\<not> list_all granted (rec_vote now db sid u False)"
    by (simp add: rec_vote_def deny_not_all_granted)
  with o show "let db' = snd (recording_permission now db (Some sid) (Some u) (Some False))
     in recording_status db' sid =
          Some (if length (ballots (recording_permissions db') sid) =
                   length (online_participants db' (rs_room_id rs))
                then ''cancelled'' else ''pending_permission'')"
    by (simp add: Let_def rec_vote_def online_participants_def)
qed

theorem deny_cancels_once_all_responded_witness:
  "screen_share_status
     (snd (screen_share_permission 2000 room_share_voted_db (Some 100) (Some 12) (Some False)))
     100 = Some ''cancelled''
   \<and> recording_status
     (snd (recording_permission 2000 room_recording_db (Some 100) (Some 12) (Some False)))
     100 = Some ''pending_permission''"
proof -
  have r: "ws_room_id (pending_share 3) = 5" "rs_room_id (pending_recording 3) = 5"
    by (simp_all add: pending_share_def pending_recording_def)
  have "screen_share_status
     (snd (screen_share_permission 2000 room_share_voted_db (Some 100) (Some 12) (Some False)))
     100 = Some ''cancelled''"
    using deny_cancels_once_all_responded
      [of 100 room_share_voted_db "pending_share 3" 2000 12 "pending_recording 3"]
    by (simp add: voted_single pending_share_status Let_def voted_deny_perms
          voted_deny_participants online_participants_def ballots_def two_grants_def r
          alice_def bob_def carol_def)
  moreover have "recording_status
     (snd (recording_permission 2000 room_recording_db (Some 100) (Some 12) (Some False)))
     100 = Some ''pending_permission''"
    using deny_cancels_once_all_responded
      [of 100 room_recording_db "pending_share 3" 2000 12 "pending_recording 3"]
    by (simp add: room_recording_single pending_recording_status Let_def first_deny_perms
          first_deny_participants online_participants_def ballots_def r
          alice_def bob_def carol_def)
  ultimately show ?thesis by simp
qed

text \<open>
  Claim C2 says that a session becomes active exactly when the number of granting ballots
  equals the size of the snapshot taken at request time, not the number of participants
  online at ballot time. Alice requests a screen share with Bob online (snapshot of 2),
  Bob then goes offline, and Alice's own grant is answered \<open>active\<close> (1 of 1): the
  session is active with one granting ballot.
\<close>

theorem active_below_snapshot_counterexample:
  "fst (request_screen_share 1000 pair_db (Some 5) (Some 10)) =
     Response 200 (Requested 100 [(10, ''Alice''), (11, ''Bob'')])
   \<and> map (md_participantCount \<circ> ws_metadata)
        (webrtc_sessions (snd (request_screen_share 1000 pair_db (Some 5) (Some 10)))) = [Some 2]
   \<and> http_status (fst (update_presence 1500
        (snd (request_screen_share 1000 pair_db (Some 5) (Some 10)))
        (Some 11) (Some False) None)) = 200
   \<and> fst (screen_share_permission 2000
        (snd (update_presence 1500
           (snd (request_screen_share 1000 pair_db (Some 5) (Some 10)))
           (Some 11) (Some False) None))
        (Some 100) (Some 10) (Some True)) = Response 200 (Ballot ''active'' 1 1)
   \<and> screen_share_status
        (snd (screen_share_permission 2000
           (snd (update_presence 1500
              (snd (request_screen_share 1000 pair_db (Some 5) (Some 10)))
              (Some 11) (Some False) None))
           (Some 100) (Some 10) (Some True))) 100 = Some ''active''
   \<and> length (filter granted (ballots (screen_share_permissions
        (snd (screen_share_permission 2000
           (snd (update_presence 1500
              (snd (request_screen_share 1000 pair_db (Some 5) (Some 10)))
              (Some 11) (Some False) None))
           (Some 100) (Some 10) (Some True)))) 100)) = 1"
proof -
  have p: "md_status (ws_metadata (pending_share 2)) = Some ''pending_permission''"
    by (simp add: pending_share_def)
  have v: "ss_vote 2000 pair_left_db 100 10 True =
      [\<lparr>perm_id = 101, perm_session_id = 100, perm_user_id = 10, granted = True, granted_at = 2000\<rparr>]"
    by (simp add: ss_vote_def ballots_def upsert_permission_def pair_left_db_def
          pair_share_db_def pair_db_def empty_db_def)
  have n: "length (online_participants pair_left_db (ws_room_id (pending_share 2))) = 1"
    by (simp add: online_participants_def pair_left_db_def pair_share_db_def pair_db_def
          empty_db_def pending_share_def alice_def bob_def)
  have c: "map (md_participantCount \<circ> ws_metadata) (webrtc_sessions pair_share_db) = [Some 2]"
    by (simp add: pair_share_db_def pending_share_def)
  note o = screen_share_ballot_outcome(1,2,3) [OF pair_left_single p, of 2000 10 True]
  have b: "ballots (screen_share_permissions
             (snd (screen_share_permission 2000 pair_left_db (Some 100) (Some 10) (Some True)))) 100 =
           ss_vote 2000 pair_left_db 100 10 True"
    by (simp add: o(3) ss_vote_def)
  show ?thesis
    using o(1,2) c
    by (simp add: pair_request bob_leaves pair_left_db_def [symmetric] b v n)
qed

text \<open>
  Claim C2, amended: a ballot on a pending session makes it active (\<open>recording\<close> for a
  recording) exactly when, with this ballot recorded, the number of ballots of the session
  equals the number of participants online in its room at ballot time and every one of
  those ballots grants.
\<close>

theorem active_iff_all_online_granted:
  "(single (filter (\<lambda>s. ws_id s = sid) (webrtc_sessions db)) = Some ss
      \<and> md_status (ws_metadata ss) = Some ''pending_permission'' \<longrightarrow>
    (let db' = snd (screen_share_permission now db (Some sid) (Some u) (Some g))
     in (screen_share_status db' sid = Some ''active'') =
          (length (ballots (screen_share_permissions db') sid) =
             length (online_participants db' (ws_room_id ss))
           \<and> list_all granted (ballots (screen_share_permissions db') sid))))
   \<and> (single (filter (\<lambda>s. rs_id s = sid) (recording_sessions db)) = Some rs
      \<and> rs_status rs = ''pending_permission'' \<longrightarrow>
    (let db' = snd (recording_permission now db (Some sid) (Some u) (Some g))
     in (recording_status db' sid = Some ''recording'') =
          (length (ballots (recording_permissions db') sid) =
             length (online_participants db' (rs_room_id rs))
           \<and> list_all granted (ballots (recording_permissions db') sid))))"
proof (intro conjI impI)
  assume a: "single (filter (\<lambda>s. ws_id s = sid) (webrtc_sessions db)) = Some ss
      \<and> md_status (ws_metadata ss) = Some ''pending_permission''"
  then have a1: "single (filter (\<lambda>s. ws_id s = sid) (webrtc_sessions db)) = Some ss"
    and a2: "md_status (ws_metadata ss) = Some ''pending_permission''" by simp_all
  note o = screen_share_ballot_outcome [OF a1 a2, of now u g]
  from o show "let db' = snd (screen_share_permission now db (Some sid) (Some u) (Some g))
     in (screen_share_status db' sid = Some ''active'') =
          (length (ballots (screen_share_permissions db') sid) =
             length (online_participants db' (ws_room_id ss))
           \<and> list_all granted (ballots (screen_share_permissions db') sid))"
    by (simp add: Let_def ss_vote_def online_participants_def)
next
  assume a: "single (filter (\<lambda>s. rs_id s = sid) (recording_sessions db)) = Some rs
      \<and> rs_status rs = ''pending_permission''"
  then have a1: "single (filter (\<lambda>s. rs_id s = sid) (recording_sessions db)) = Some rs"
    and a2: "rs_status rs = ''pending_permission''" by simp_all
  note o = recording_ballot_outcome [OF a1 a2, of now u g]
  from o show "let db' = snd (recording_permission now db (Some sid) (Some u) (Some g))
     in (recording_status db' sid = Some ''recording'') =
          (length (ballots (recording_permissions db') sid) =
             length (online_participants db' (rs_room_id rs))
           \<and> list_all granted (ballots (recording_permissions db') sid))"
    by (simp add: Let_def rec_vote_def online_participants_def)
qed

theorem active_iff_all_online_granted_witness:
  "screen_share_status
     (snd (screen_share_permission 2000 room_share_voted_db (Some 100) (Some 12) (Some True)))
     100 = Some ''active''
   \<and> recording_status
     (snd (recording_permission 2000 room_recording_db (Some 100) (Some 12) (Some True)))
     100 \<noteq> Some ''recording''"
proof -
  have r: "ws_room_id (pending_share 3) = 5" "rs_room_id (pending_recording 3) = 5"
    by (simp_all add: pending_share_def pending_recording_def)
  have "screen_share_status
     (snd (screen_share_permission 2000 room_share_voted_db (Some 100) (Some 12) (Some True)))
     100 = Some ''active''"
    using active_iff_all_online_granted
      [of 100 room_share_voted_db "pending_share 3" 2000 12 True "pending_recording 3"]
    by (simp add: voted_single pending_share_status Let_def voted_grant_perms
          voted_grant_participants online_participants_def ballots_def two_grants_def r
          alice_def bob_def carol_def)
  moreover have "recording_status
     (snd (recording_permission 2000 room_recording_db (Some 100) (Some 12) (Some True)))
     100 \<noteq> Some ''recording''"
    using active_iff_all_online_granted
      [of 100 room_recording_db "pending_share 3" 2000 12 True "pending_recording 3"]
    by (simp add: room_recording_single pending_recording_status Let_def first_grant_perms
          first_grant_participants online_participants_def ballots_def r
          alice_def bob_def carol_def)
  ultimately show ?thesis by simp
qed

text \<open>
  Claim C7 says that for every voter and session a second ballot of the same voter
  overwrites the first. Alice's grant is the deciding ballot of her screen share (Bob
  has gone offline): the session is active, and her second ballot, a denial, is answered
  400 and leaves her grant as the recorded ballot.
\<close>

theorem late_ballot_not_overwritten_counterexample:
  "snd (update_presence 1500 (snd (request_screen_share 1000 pair_db (Some 5) (Some 10)))
          (Some 11) (Some False) None) = pair_left_db
   \<and> fst (screen_share_permission 2000 pair_left_db (Some 100) (Some 10) (Some True)) =
       Response 200 (Ballot ''active'' 1 1)
   \<and> fst (screen_share_permission 3000
            (snd (screen_share_permission 2000 pair_left_db (Some 100) (Some 10) (Some True)))
            (Some 100) (Some 10) (Some False)) =
       Response 400 (CoordError ''Screen share session not requesting permission'')
   \<and> map granted (ballots (screen_share_permissions
        (snd (screen_share_permission 3000
               (snd (screen_share_permission 2000 pair_left_db (Some 100) (Some 10) (Some True)))
               (Some 100) (Some 10) (Some False)))) 100) = [True]"
proof -
  let ?db3 = "snd (screen_share_permission 2000 pair_left_db (Some 100) (Some 10) (Some True))"
  from pair_left_grant(2) obtain s3 where
    s3: "single (filter (\<lambda>s. ws_id s = 100) (webrtc_sessions ?db3)) = Some s3"
        "md_status (ws_metadata s3) = Some ''active''"
    by (cases "single (filter (\<lambda>s. ws_id s = 100) (webrtc_sessions ?db3))")
       (simp_all add: screen_share_status_def)
  from s3(2) have "md_status (ws_metadata s3) \<noteq> Some ''pending_permission''" by simp
  from screen_share_not_pending_response [OF s3(1) this, of 3000 10 False]
  have r: "screen_share_permission 3000 ?db3 (Some 100) (Some 10) (Some False) =
           (Response 400 (CoordError ''Screen share session not requesting permission''), ?db3)" .
  show ?thesis
    by (simp add: pair_left_reached pair_left_grant(1) r pair_left_grant(3) ballots_def)
qed

text \<open>
  Claim C7, amended: a second ballot of the same voter on the same session never adds to
  the number of ballots recorded for the session. While the session is still
  \<open>pending_permission\<close> when the second ballot arrives, it overwrites the first: the
  voter's ballot takes the new \<open>granted\<close> value and every other ballot of the session
  stays as it is (upsert keyed on session and voter), so the voter is counted once. Once
  the session has left \<open>pending_permission\<close>, the second ballot is refused and changes
  nothing. This holds for both permission functions.
\<close>

theorem second_ballot_overwrites_while_pending:
  "(let db1 = snd (screen_share_permission t1 db (Some sid) (Some u) (Some g1));
        r2 = screen_share_permission t2 db1 (Some sid) (Some u) (Some g2)
    in length (ballots (screen_share_permissions (snd r2)) sid) =
         length (ballots (screen_share_permissions db1) sid)
       \<and> (screen_share_status db1 sid = Some ''pending_permission'' \<longrightarrow>
            ballots (screen_share_permissions (snd r2)) sid =
              map (\<lambda>p. if perm_user_id p = u then p\<lparr>granted := g2\<rparr> else p)
                (ballots (screen_share_permissions db1) sid)
            \<and> list_ex (\<lambda>p. perm_user_id p = u) (ballots (screen_share_permissions db1) sid))
       \<and> (screen_share_status db1 sid \<noteq> Some ''pending_permission'' \<longrightarrow>
            snd r2 = db1 \<and> http_status (fst r2) \<noteq> 200))
   \<and> (let db1 = snd (recording_permission t1 db (Some sid) (Some u) (Some g1));
        r2 = recording_permission t2 db1 (Some sid) (Some u) (Some g2)
    in length (ballots (recording_permissions (snd r2)) sid) =
         length (ballots (recording_permissions db1) sid)
       \<and> (recording_status db1 sid = Some ''pending_permission'' \<longrightarrow>
            ballots (recording_permissions (snd r2)) sid =
              map (\<lambda>p. if perm_user_id p = u then p\<lparr>granted := g2\<rparr> else p)
                (ballots (recording_permissions db1) sid)
            \<and> list_ex (\<lambda>p. perm_user_id p = u) (ballots (recording_permissions db1) sid))
       \<and> (recording_status db1 sid \<noteq> Some ''pending_permission'' \<longrightarrow>
            snd r2 = db1 \<and> http_status (fst r2) \<noteq> 200))"
  unfolding Let_def
  using screen_share_repeat [of t2 t1 db sid u g1 g2] recording_repeat [of t2 t1 db sid u g1 g2]
    screen_share_second_ballot(1) [of t1 db sid u g1 t2 g2]
    screen_share_second_ballot(2) [of t1 db sid u g1]
    recording_second_ballot(1) [of t1 db sid u g1 t2 g2]
    recording_second_ballot(2) [of t1 db sid u g1]
    screen_share_late_ballot
      [of "snd (screen_share_permission t1 db (Some sid) (Some u) (Some g1))" sid t2 u g2]
    recording_late_ballot
      [of "snd (recording_permission t1 db (Some sid) (Some u) (Some g1))" sid t2 u g2]
  by blast

theorem second_ballot_overwrites_while_pending_witness:
  "ballots (screen_share_permissions
      (snd (screen_share_permission 3000
             (snd (screen_share_permission 2000 room_share_db (Some 100) (Some 12) (Some True)))
             (Some 100) (Some 12) (Some False)))) 100 =
     [\<lparr>perm_id = 101, perm_session_id = 100, perm_user_id = 12, granted = False,
       granted_at = 2000\<rparr>]
   \<and> snd (screen_share_permission 3000
            (snd (screen_share_permission 2000 pair_left_db (Some 100) (Some 10) (Some True)))
            (Some 100) (Some 10) (Some False)) =
       snd (screen_share_permission 2000 pair_left_db (Some 100) (Some 10) (Some True))"
proof -
  have "ballots (screen_share_permissions
      (snd (screen_share_permission 3000
             (snd (screen_share_permission 2000 room_share_db (Some 100) (Some 12) (Some True)))
             (Some 100) (Some 12) (Some False)))) 100 =
     [\<lparr>perm_id = 101, perm_session_id = 100, perm_user_id = 12, granted = False,
       granted_at = 2000\<rparr>]"
    using second_ballot_overwrites_while_pending [of 2000 room_share_db 100 12 True 3000 False]
    by (simp add: Let_def first_vote_pending first_vote_perms ballots_def)
  moreover have "snd (screen_share_permission 3000
            (snd (screen_share_permission 2000 pair_left_db (Some 100) (Some 10) (Some True)))
            (Some 100) (Some 10) (Some False)) =
       snd (screen_share_permission 2000 pair_left_db (Some 100) (Some 10) (Some True))"
    using second_ballot_overwrites_while_pending [of 2000 pair_left_db 100 10 True 3000 False]
    by (simp add: Let_def pair_left_grant(2))
  ultimately show ?thesis by simp
qed

text \<open>
  The request for a recording, made by the host while at most one recording of the room
  is in progress, answers 409 exactly when there is one, and otherwise creates the
  pending session.
\<close>

lemma recording_request_conflict:
  assumes "single (filter (\<lambda>p. p_user_id p = u \<and> p_room_id p = r) (participants db)) = Some host"
    and "is_host host"
    and "length (filter (\<lambda>s. rs_room_id s = r \<and>
                    rs_status s \<in> set [''recording'', ''pending_permission''])
                 (recording_sessions db)) \<le> 1"
  shows "((http_status (fst (request_recording now db (Some r) (Some u))) = 409) =
          (\<exists>s \<in> set (recording_sessions db). rs_room_id s = r \<and>
               rs_status s \<in> set [''recording'', ''pending_permission'']))
     \<and> (http_status (fst (request_recording now db (Some r) (Some u))) = 409 \<longrightarrow>
          snd (request_recording now db (Some r) (Some u)) = db)
     \<and> (http_status (fst (request_recording now db (Some r) (Some u))) \<noteq> 409 \<longrightarrow>
          (\<exists>new. recording_sessions (snd (request_recording now db (Some r) (Some u))) =
                    recording_sessions db @ [new]
                \<and> rs_id new = next_uuid db \<and> rs_room_id new = r \<and> started_by new = u
                \<and> rs_status new = ''pending_permission''
                \<and> fst (request_recording now db (Some r) (Some u)) =
                    Response 200 (Requested (rs_id new)
                      (map (\<lambda>p. (p_user_id p, display_name p)) (online_participants db r)))))"
proof -
  let ?m = "filter (\<lambda>s. rs_room_id s = r \<and>
                    rs_status s \<in> set [''recording'', ''pending_permission''])
                 (recording_sessions db)"
  note h = request_recording_host [OF assms(1,2), of now]
  show ?thesis
  proof (cases "single ?m")
    case None
    with single_short [OF assms(3)] have "?m = []" by simp
    then have "\<not> (\<exists>s \<in> set (recording_sessions db). rs_room_id s = r \<and>
               rs_status s \<in> set [''recording'', ''pending_permission''])"
      by (simp only: filter_empty_conv) blast
    with None h show ?thesis by (simp del: set_simps)
  next
    case (Some e)
    then have "?m \<noteq> []" by auto
    then have "\<exists>s \<in> set (recording_sessions db). rs_room_id s = r \<and>
               rs_status s \<in> set [''recording'', ''pending_permission'']"
      by (simp only: filter_nonempty)
    with Some h show ?thesis by (simp del: set_simps)
  qed
qed

text \<open>
  Claim C3: a request fails with 409 if and only if a session of that kind is pending or
  active in the room. For screen shares the code does not do so: Alice's screen share is
  pending in room 5 when Bob, a participant of the room, requests one, and the answer is
  200 with a second pending screen share in the same room.
\<close>

theorem screen_share_conflict_missed:
  "fst (request_screen_share 1000 room_db (Some 5) (Some 10)) =
     Response 200 (Requested 100 [(10, ''Alice''), (11, ''Bob''), (12, ''Carol'')])
   \<and> screen_share_status (snd (request_screen_share 1000 room_db (Some 5) (Some 10))) 100 =
       Some ''pending_permission''
   \<and> fst (request_screen_share 2000
            (snd (request_screen_share 1000 room_db (Some 5) (Some 10))) (Some 5) (Some 11)) =
       Response 200 (Requested 101 [(10, ''Alice''), (11, ''Bob''), (12, ''Carol'')])
   \<and> map (\<lambda>s. (ws_id s, ws_room_id s, session_type s, md_status (ws_metadata s)))
        (webrtc_sessions (snd (request_screen_share 2000
            (snd (request_screen_share 1000 room_db (Some 5) (Some 10))) (Some 5) (Some 11)))) =
       [(100, 5, ''screen_share'', Some ''pending_permission''),
        (101, 5, ''screen_share'', Some ''pending_permission'')]"
  by (simp add: room_request second_share_request screen_share_status_def room_share_single
        pending_share_status)
     (simp add: pending_share_def)

text \<open>
  Claim C10: a recording request by a participant who is not the host fails with 403
  \<open>Only room host can start recording\<close> and changes nothing, whatever sessions exist
  (the check precedes the conflict check and the insert); a screen-share request by the
  same participant is accepted and creates the pending session.
\<close>

theorem host_only_recording:
  assumes "single (filter (\<lambda>p. p_user_id p = u \<and> p_room_id p = r) (participants db)) = Some p"
    and "\<not> is_host p"
  shows "request_recording now db (Some r) (Some u) =
           (Response 403 (CoordError ''Only room host can start recording''), db)
     \<and> http_status (fst (request_screen_share now db (Some r) (Some u))) = 200
     \<and> (\<exists>new. webrtc_sessions (snd (request_screen_share now db (Some r) (Some u))) =
                  webrtc_sessions db @ [new]
              \<and> host_user_id new = u \<and> ws_room_id new = r
              \<and> md_status (ws_metadata new) = Some ''pending_permission'')"
  using assms
  by (simp add: request_recording_def request_screen_share_def single_in_status_def
        webrtc_sessions_status_def Let_def)

theorem host_only_recording_witness:
  "request_recording 2000 room_recording_db (Some 5) (Some 11) =
           (Response 403 (CoordError ''Only room host can start recording''), room_recording_db)
     \<and> http_status (fst (request_screen_share 2000 room_recording_db (Some 5) (Some 11))) = 200"
proof -
  have "\<not> is_host bob" by (simp add: bob_def)
  from host_only_recording [OF bob_single this, of 2000] show ?thesis by blast
qed

section \<open>Properties of the screen-share panel\<close>

lemma stop_no_reconnection:
  "timeouts p = [] \<Longrightarrow> no_reconnection (handleStopScreenShare p)"
  by (simp add: no_reconnection_def handleStopScreenShare_def Let_def setConnectionStatus_def
        clearTimeout_def split: option.splits)

lemma stop_result:
  "isScreenSharing (handleStopScreenShare p) = False"
  "localStreamRef (handleStopScreenShare p) = None"
  "streamEndedHandlerRef (handleStopScreenShare p) = None"
  "reconnectTimeoutRef (handleStopScreenShare p) = None"
  "currentScreenShareSessionId (handleStopScreenShare p) = None"
  "connectionStatus (handleStopScreenShare p) = Idle"
  by (simp_all add: handleStopScreenShare_def Let_def setConnectionStatus_def clearTimeout_def
        split: option.splits)


lemma start_no_reconnection:
  "no_reconnection p \<Longrightarrow> \<not> isScreenSharing p \<Longrightarrow>
     no_reconnection (handleStartScreenShare media registered p)"
  by (cases media)
     (simp_all add: no_reconnection_def handleStartScreenShare_def Let_def
        setConnectionStatus_def setupStreamEndedHandler_def split: option.splits)

lemma ended_no_reconnection:
  assumes "no_reconnection p"
  shows "no_reconnection (handleEnded False p)"
proof -
  from assms have "\<not> isUserStoppedRef p" "timeouts (setConnectionStatus Failed p) = []"
    by (simp_all add: no_reconnection_def setConnectionStatus_def)
  then show ?thesis by (simp add: handleEnded_def stop_no_reconnection)
qed

lemma cleanup_no_reconnection:
  "no_reconnection p \<Longrightarrow> no_reconnection (effectCleanup p)"
  by (simp add: no_reconnection_def effectCleanup_def Let_def setConnectionStatus_def
        clearTimeout_def split: option.splits)

lemma rerender_no_reconnection:
  "no_reconnection p \<Longrightarrow> no_reconnection (rerender before p)"
  by (simp add: rerender_def cleanup_no_reconnection)

lemma handle_event_no_reconnection:
  assumes "no_reconnection p"
  shows "no_reconnection (handle_event p ev)"
proof (cases ev)
  case (ShareButtonClicked media registered)
  from assms have t: "timeouts p = []" "\<not> isStartingScreenShare p"
    by (simp_all add: no_reconnection_def)
  show ?thesis
  proof (cases "isScreenSharing p")
    case True
    with ShareButtonClicked t show ?thesis by (simp add: stop_no_reconnection)
  next
    case False
    with ShareButtonClicked t assms show ?thesis by (simp add: start_no_reconnection)
  qed
next
  case TrackEnded
  show ?thesis
  proof (cases "streamEndedHandlerRef p")
    case None
    with TrackEnded assms show ?thesis by simp
  next
    case (Some sharing)
    with assms have "sharing = False" by (simp add: no_reconnection_def)
    with Some TrackEnded assms show ?thesis
      by (cases "localStreamRef p") (simp_all add: ended_no_reconnection)
  qed
next
  case (TimeoutFires h media)
  from assms have "timeouts p = []" by (simp add: no_reconnection_def)
  with TimeoutFires assms show ?thesis by simp
next
  case (OwnShareStarted sessionId)
  with assms show ?thesis by (simp add: no_reconnection_def setConnectionStatus_def)
next
  case (ShareStopped sessionId)
  with assms show ?thesis by (simp add: no_reconnection_def setConnectionStatus_def)
next
  case DepsChanged
  with assms show ?thesis by (simp add: cleanup_no_reconnection)
qed

lemma step_no_reconnection:
  "no_reconnection p \<Longrightarrow> no_reconnection (panel_step p ev)"
  by (simp add: panel_step_def rerender_no_reconnection handle_event_no_reconnection)

lemma run_no_reconnection:
  "no_reconnection p \<Longrightarrow> no_reconnection (panel_run p evs)"
  unfolding panel_run_def
  by (induction evs arbitrary: p) (simp_all add: step_no_reconnection)

lemma idle_no_reconnection: "no_reconnection idle_panel"
  by (simp add: no_reconnection_def idle_panel_def)

lemma reachable_no_reconnection: "no_reconnection (panel_run idle_panel evs)"
  by (rule run_no_reconnection [OF idle_no_reconnection])

lemma run_append: "panel_run p (evs @ evs') = panel_run (panel_run p evs) evs'"
  by (simp add: panel_run_def)


lemma started_share:
  "panel_run idle_panel [ShareButtonClicked (Stream 7) None] =
     idle_panel\<lparr>isScreenSharing := True, connectionStatus := Connected,
       localStreamRef := Some 7, streamEndedHandlerRef := Some False\<rparr>"
  by (simp add: panel_run_def panel_step_def rerender_def idle_panel_def
        handleStartScreenShare_def setConnectionStatus_def setupStreamEndedHandler_def Let_def)

text \<open>
  When the backend registers the share, the new session id is a changed dependency of
  the effect: its cleanup stops the stream and resets the state at once.
\<close>

lemma registered_share_torn_down:
  "panel_run idle_panel [ShareButtonClicked (Stream 7) (Some 100)] =
     idle_panel\<lparr>streamEndedHandlerRef := Some False\<rparr>"
  by (simp add: panel_run_def panel_step_def rerender_def idle_panel_def effectCleanup_def
        handleStartScreenShare_def setConnectionStatus_def setupStreamEndedHandler_def Let_def)

text \<open>
  Claim C8 says that on a track-ended event without a manual stop, while the attempt
  counter is below 3, the panel increments the counter, enters \<open>Reconnecting\<close> and
  schedules one reconnection after 2000 ms times the new counter. The component does
  not: the user starts a share (the capture succeeds, the backend request fails, the
  share goes on locally), the panel is sharing and \<open>Connected\<close> with counter 0 and no
  manual stop, and when the track ends the panel is back in its mounted state, with no
  timeout, counter 0 and status \<open>Idle\<close>. On no run at all does the counter leave 0, the
  status become \<open>Reconnecting\<close> or a timeout get scheduled.
\<close>

theorem track_end_tears_down:
  "isScreenSharing (panel_run idle_panel [ShareButtonClicked (Stream 7) None])
   \<and> connectionStatus (panel_run idle_panel [ShareButtonClicked (Stream 7) None]) = Connected
   \<and> localStreamRef (panel_run idle_panel [ShareButtonClicked (Stream 7) None]) = Some 7
   \<and> isUserStoppedRef (panel_run idle_panel [ShareButtonClicked (Stream 7) None]) = False
   \<and> reconnectAttemptsRef (panel_run idle_panel [ShareButtonClicked (Stream 7) None]) = 0
   \<and> panel_run idle_panel [ShareButtonClicked (Stream 7) None, TrackEnded] = idle_panel
   \<and> reconnectAttemptsRef (panel_run idle_panel evs) = 0
   \<and> connectionStatus (panel_run idle_panel evs) \<noteq> Reconnecting
   \<and> timeouts (panel_run idle_panel evs) = []"
proof -
  have "panel_run idle_panel [ShareButtonClicked (Stream 7) None, TrackEnded] = idle_panel"
    using run_append [of idle_panel "[ShareButtonClicked (Stream 7) None]" "[TrackEnded]"]
    by (simp add: started_share)
       (simp add: panel_run_def panel_step_def rerender_def idle_panel_def handleEnded_def
          handleStopScreenShare_def setConnectionStatus_def Let_def)
  moreover from reachable_no_reconnection [of evs]
  have "reconnectAttemptsRef (panel_run idle_panel evs) = 0
   \<and> connectionStatus (panel_run idle_panel evs) \<noteq> Reconnecting
   \<and> timeouts (panel_run idle_panel evs) = []"
    by (simp add: no_reconnection_def)
  ultimately show ?thesis
    by (simp add: started_share) (simp add: idle_panel_def)
qed



end
